theory Spec2Isabelle
  imports Main "HOL-Library.Log_Nat"
begin

section \<open>Python values used by \<open>app.py\<close>\<close>

text \<open>
  Every payload the script handles comes from \<open>response.json()\<close>, so a value is a decoded
  JSON document. A Python \<open>dict\<close> keeps insertion order, hence an association list
  (keys of a decoded object are distinct). Text is a \<open>string\<close>; literals of the script
  that hold characters beyond ASCII are written as their UTF-8 bytes, payload text is
  taken to be ASCII. Floats carry their exact rational value (strict JSON has neither
  NaN nor infinities).
\<close>

datatype json =
    JNull
  | JBool bool
  | JInt int
  | JFloat rat
  | JStr string
  | JList "json list"
  | JObj "(string \<times> json) list"

text \<open>Exceptions that the modelled statements can raise.\<close>

datatype py_error =
    NameError string
  | AttributeError
  | KeyError string
  | TypeError
  | ValueError
  | JSONDecodeError
  | RequestException string
  | UnidentifiedImageError
  | SecretNotFoundError

text \<open>
  What the interpreter itself supplies and the script only calls: \<open>str()\<close> of a float,
  list or dict, and \<open>format(x, '.Nf')\<close> of a number. They stay parameters.
\<close>

record py_runtime =
  repr_value :: "json \<Rightarrow> string"
  format_fixed :: "nat \<Rightarrow> json \<Rightarrow> string"

subsection \<open>Integers as decimal text\<close>

definition digit_char :: "nat \<Rightarrow> char" where
  "digit_char d = char_of ((48::nat) + d)"

fun show_nat :: "nat \<Rightarrow> string" where
  "show_nat n = (if n < 10 then [digit_char n] else show_nat (n div 10) @ [digit_char (n mod 10)])"

declare show_nat.simps [simp del]

definition show_int :: "int \<Rightarrow> string" where
  "show_int i = (if i < 0 then CHR ''-'' # show_nat (nat (- i)) else show_nat (nat i))"

subsection \<open>\<open>str\<close>, truth value, \<open>dict.get\<close>, subscripting, iteration\<close>

definition py_str :: "py_runtime \<Rightarrow> json \<Rightarrow> string" where
  "py_str rt v =
     (case v of
        JStr s \<Rightarrow> s
      | JNull \<Rightarrow> ''None''
      | JBool b \<Rightarrow> (if b then ''True'' else ''False'')
      | JInt i \<Rightarrow> show_int i
      | _ \<Rightarrow> repr_value rt v)"

definition truthy :: "json \<Rightarrow> bool" where
  "truthy v =
     (case v of
        JNull \<Rightarrow> False
      | JBool b \<Rightarrow> b
      | JInt i \<Rightarrow> i \<noteq> 0
      | JFloat q \<Rightarrow> q \<noteq> 0
      | JStr s \<Rightarrow> s \<noteq> []
      | JList xs \<Rightarrow> xs \<noteq> []
      | JObj d \<Rightarrow> d \<noteq> [])"

text \<open>\<open>d.get(k, default)\<close> on a dict \<open>d\<close>.\<close>

definition get_or :: "(string \<times> json) list \<Rightarrow> string \<Rightarrow> json \<Rightarrow> json" where
  "get_or d k dflt = (case map_of d k of None \<Rightarrow> dflt | Some v \<Rightarrow> v)"

text \<open>\<open>v.get(k, default)\<close> on any value: only a dict has the method.\<close>

definition dict_get :: "json \<Rightarrow> string \<Rightarrow> json \<Rightarrow> py_error + json" where
  "dict_get v k dflt = (case v of JObj d \<Rightarrow> Inr (get_or d k dflt) | _ \<Rightarrow> Inl AttributeError)"

text \<open>\<open>v[k]\<close> with a string key \<open>k\<close>.\<close>

definition subscript :: "json \<Rightarrow> string \<Rightarrow> py_error + json" where
  "subscript v k =
     (case v of
        JObj d \<Rightarrow> (case map_of d k of None \<Rightarrow> Inl (KeyError k) | Some x \<Rightarrow> Inr x)
      | _ \<Rightarrow> Inl TypeError)"

text \<open>\<open>v[:n]\<close>.\<close>

definition slice_to :: "nat \<Rightarrow> json \<Rightarrow> py_error + json" where
  "slice_to n v =
     (case v of
        JStr s \<Rightarrow> Inr (JStr (take n s))
      | JList xs \<Rightarrow> Inr (JList (take n xs))
      | _ \<Rightarrow> Inl TypeError)"

text \<open>The elements a \<open>for\<close> loop or a comprehension draws from \<open>v\<close>.\<close>

definition py_iter :: "json \<Rightarrow> py_error + json list" where
  "py_iter v =
     (case v of
        JList xs \<Rightarrow> Inr xs
      | JObj d \<Rightarrow> Inr (map (\<lambda>kv. JStr (fst kv)) d)
      | JStr s \<Rightarrow> Inr (map (\<lambda>c. JStr [c]) s)
      | _ \<Rightarrow> Inl TypeError)"

text \<open>\<open>v.items()\<close>.\<close>

definition py_items :: "json \<Rightarrow> py_error + (string \<times> json) list" where
  "py_items v = (case v of JObj d \<Rightarrow> Inr d | _ \<Rightarrow> Inl AttributeError)"

text \<open>\<open>len(v)\<close>.\<close>

definition py_len :: "json \<Rightarrow> py_error + nat" where
  "py_len v =
     (case v of
        JList xs \<Rightarrow> Inr (length xs)
      | JObj d \<Rightarrow> Inr (length d)
      | JStr s \<Rightarrow> Inr (length s)
      | _ \<Rightarrow> Inl TypeError)"

subsection \<open>String methods\<close>

definition is_upper :: "char \<Rightarrow> bool" where
  "is_upper c = ((65::nat) \<le> of_char c \<and> of_char c \<le> (90::nat))"

definition is_lower :: "char \<Rightarrow> bool" where
  "is_lower c = ((97::nat) \<le> of_char c \<and> of_char c \<le> (122::nat))"

definition to_lower :: "char \<Rightarrow> char" where
  "to_lower c = (if is_upper c then char_of (of_char c + (32::nat)) else c)"

definition to_upper :: "char \<Rightarrow> char" where
  "to_upper c = (if is_lower c then char_of (of_char c - (32::nat)) else c)"

text \<open>\<open>s.lower()\<close>.\<close>

definition lower :: "string \<Rightarrow> string" where
  "lower s = map to_lower s"

text \<open>\<open>s.startswith(p)\<close> and \<open>p in s\<close> for two strings.\<close>

fun starts_with :: "string \<Rightarrow> string \<Rightarrow> bool" where
  "starts_with [] s = True"
| "starts_with (p # ps) [] = False"
| "starts_with (p # ps) (c # cs) = (p = c \<and> starts_with ps cs)"

fun str_in :: "string \<Rightarrow> string \<Rightarrow> bool" where
  "str_in p [] = (p = [])"
| "str_in p (c # cs) = (starts_with p (c # cs) \<or> str_in p cs)"

text \<open>
  \<open>s.replace(old, new)\<close> for a non-empty \<open>old\<close>: leftmost occurrences, not overlapping.
  The first argument is the number of characters still to skip after a match.
\<close>

fun replace_from :: "nat \<Rightarrow> string \<Rightarrow> string \<Rightarrow> string \<Rightarrow> string" where
  "replace_from k old new [] = []"
| "replace_from (Suc k) old new (c # cs) = replace_from k old new cs"
| "replace_from 0 old new (c # cs) =
     (if starts_with old (c # cs) then new @ replace_from (length old - 1) old new cs
      else c # replace_from 0 old new cs)"

definition replace :: "string \<Rightarrow> string \<Rightarrow> string \<Rightarrow> string" where
  "replace old new s = replace_from 0 old new s"

text \<open>
  \<open>s.title()\<close>: a letter that follows a letter is lowered, any other letter is raised.
  The flag says whether the previous character was a letter.
\<close>

fun title_from :: "bool \<Rightarrow> string \<Rightarrow> string" where
  "title_from prev [] = []"
| "title_from prev (c # cs) =
     (if is_upper c \<or> is_lower c
      then (if prev then to_lower c else to_upper c) # title_from True cs
      else c # title_from False cs)"

definition title :: "string \<Rightarrow> string" where
  "title s = title_from False s"

section \<open>Double-precision arithmetic of the progress estimate\<close>

text \<open>
  \<open>attempt / max_attempts\<close> and \<open>\<dots> * 100\<close> are IEEE 754 binary64 operations: the exact
  result rounded to 53 significant bits, ties to even. \<open>fl\<close> is that rounding for a
  positive rational in the normal range (the only values the loop produces); zero is
  exact.
\<close>

definition pow2 :: "int \<Rightarrow> rat" where
  "pow2 e = (if 0 \<le> e then 2 ^ nat e else 1 / 2 ^ nat (- e))"

definition round_half_even :: "rat \<Rightarrow> int" where
  "round_half_even m =
     (let f = \<lfloor>m\<rfloor>; r = m - of_int f
      in if r < 1 / 2 then f else if 1 / 2 < r then f + 1 else if even f then f else f + 1)"

text \<open>The binary exponent of a positive rational: \<open>2 ^ e \<le> q < 2 ^ (e + 1)\<close>.\<close>

definition binade :: "rat \<Rightarrow> int" where
  "binade q =
     (let p = quotient_of q;
          e0 = bitlen (fst p) - bitlen (snd p)
      in if q < pow2 e0 then e0 - 1 else e0)"

definition fl :: "rat \<Rightarrow> rat" where
  "fl q =
     (if q \<le> 0 then 0
      else
        let ulp = pow2 (binade q - 52)
        in of_int (round_half_even (q / ulp)) * ulp)"

text \<open>\<open>min(x, 95)\<close> keeps \<open>x\<close> unless 95 is smaller; \<open>int(x)\<close> cuts towards zero.\<close>

definition max_attempts :: nat where
  "max_attempts = 150"

definition progress_estimate :: "nat \<Rightarrow> rat" where
  "progress_estimate attempt =
     (let x = fl (fl (of_nat attempt / of_nat max_attempts) * 100)
      in if 95 < x then 95 else x)"

definition py_int :: "rat \<Rightarrow> int" where
  "py_int x = (if x < 0 then \<lceil>x\<rceil> else \<lfloor>x\<rfloor>)"

section \<open>The script's surroundings\<close>

text \<open>
  One run of the script reads the widgets (\<open>user\<close>), talks to the analysis service
  (\<open>server\<close>: what each call of this run returns or raises), keeps
  \<open>st.session_state\<close> (\<open>session\<close>) and leaves a trace of what it did: the HTTP calls
  with their \<open>timeout\<close> argument, the pauses, and what it put on the page. Headers,
  dividers, style sheets and layout columns decide nothing and are left out.

  Three calls into the toolkit can raise and are modelled with their failure:
  \<open>st.secrets.get\<close> (line 14) without a secrets file (\<open>secrets_configured\<close>),
  \<open>st.image\<close> (line 246) on bytes that are no image (\<open>decodes_as_image\<close>, which the
  imaging library decides, not the script), and \<open>st.metric\<close> on a list or a dict.
\<close>

datatype media = Video | ImageSequence

record upload =
  file_name :: string
  file_bytes :: string
  decodes_as_image :: bool

record user =
  media_type :: media
  analysis_mode :: string
  sampling_mode :: string
  sequence_type :: string
  uploaded_file :: "upload option"
  uploaded_files :: "upload list"
  analyze_clicked :: bool
  severity_filter :: "string list"
  pdf_clicked :: bool

record response =
  status_code :: int
  body :: "json option"
  content :: string

record server =
  secrets_configured :: bool
  health :: "py_error + response"
  analyze_video :: "py_error + response"
  analyze_images :: "py_error + response"
  job_status :: "nat \<Rightarrow> py_error + response"
  job_result :: "py_error + response"
  export_pdf :: "py_error + response"

datatype request =
    HealthCheck
  | SubmitVideo string string string
  | SubmitImages "string list" string string
  | JobStatus json
  | ResultFetch json
  | PdfExport json

datatype event =
    Http request "nat option"
  | Sleep nat
  | Progress int
  | Success string
  | Info string
  | Warning string
  | Error string
  | ErrorExc string py_error
  | Caption string
  | VideoPlayer string
  | Thumbnail string
  | Metric string json
  | Subheader string
  | FindingCard string string string string
  | Download string

record session =
  job_id :: json
  results :: json
  analysis_complete :: bool

record world =
  state :: session
  trace :: "event list"

datatype outcome = Done | Raised py_error | Rerun

definition emit :: "event \<Rightarrow> world \<Rightarrow> world" where
  "emit e w = w\<lparr>trace := trace w @ [e]\<rparr>"

definition emit_all :: "event list \<Rightarrow> world \<Rightarrow> world" where
  "emit_all es w = w\<lparr>trace := trace w @ es\<rparr>"

text \<open>
  \<open>st.metric(label, value)\<close> accepts a number, a string or \<open>None\<close> and raises
  \<open>TypeError\<close> on a list or a dict.
\<close>

definition st_metric :: "string \<Rightarrow> json \<Rightarrow> world \<Rightarrow> outcome \<times> world" where
  "st_metric label v w =
     (case v of
        JList xs \<Rightarrow> (Raised TypeError, w)
      | JObj d \<Rightarrow> (Raised TypeError, w)
      | _ \<Rightarrow> (Done, emit (Metric label v) w))"

text \<open>\<open>st.image(img_file, caption=img_file.name)\<close> decodes the upload.\<close>

definition st_image :: "upload \<Rightarrow> world \<Rightarrow> outcome \<times> world" where
  "st_image f w =
     (if decodes_as_image f then (Done, emit (Thumbnail (file_name f)) w)
      else (Raised UnidentifiedImageError, w))"

text \<open>The non-ASCII characters of the script's messages, as UTF-8.\<close>

definition check_mark :: string where
  "check_mark = [CHR 0xE2, CHR 0x9C, CHR 0x85]"

definition cross_mark :: string where
  "cross_mark = [CHR 0xE2, CHR 0x9D, CHR 0x8C]"

definition hourglass :: string where
  "hourglass = [CHR 0xE2, CHR 0x8F, CHR 0xB3]"

definition warning_sign :: string where
  "warning_sign = [CHR 0xE2, CHR 0x9A, CHR 0xA0, CHR 0xEF, CHR 0xB8, CHR 0x8F]"

definition video_camera :: string where
  "video_camera = [CHR 0xF0, CHR 0x9F, CHR 0x93, CHR 0xB9]"

definition camera_flash :: string where
  "camera_flash = [CHR 0xF0, CHR 0x9F, CHR 0x93, CHR 0xB8]"

definition red_circle :: string where
  "red_circle = [CHR 0xF0, CHR 0x9F, CHR 0x94, CHR 0xB4]"

definition orange_circle :: string where
  "orange_circle = [CHR 0xF0, CHR 0x9F, CHR 0x9F, CHR 0xA0]"

definition yellow_circle :: string where
  "yellow_circle = [CHR 0xF0, CHR 0x9F, CHR 0x9F, CHR 0xA1]"

definition point_up :: string where
  "point_up = [CHR 0xF0, CHR 0x9F, CHR 0x91, CHR 0x86]"

definition clapper_board :: string where
  "clapper_board = [CHR 0xF0, CHR 0x9F, CHR 0x8E, CHR 0xAC]"

section \<open>Sidebar: the health check (lines 126-135)\<close>

definition sidebar :: "server \<Rightarrow> world \<Rightarrow> world" where
  "sidebar srv w =
     (let w1 = emit (Http HealthCheck (Some 5)) w
      in case health srv of
           Inl e \<Rightarrow> emit (Error (cross_mark @ '' API Offline'')) w1
         | Inr r \<Rightarrow>
             if status_code r = 200 then emit (Success (check_mark @ '' API Online'')) w1
             else emit (Error (cross_mark @ '' API Error'')) w1)"

section \<open>Video: the polling loop (lines 181-223)\<close>

text \<open>The branch taken on status \<open>completed\<close> (lines 195-208).\<close>

definition video_completed :: "server \<Rightarrow> world \<Rightarrow> outcome \<times> world" where
  "video_completed srv w =
     (let w1 = emit (Progress 100) w;
          w2 = emit (Success (check_mark @ '' Analysis complete!'')) w1;
          w3 = emit (Http (ResultFetch (job_id (state w2))) (Some 5)) w2
      in case job_result srv of
           Inl e \<Rightarrow> (Raised e, w3)
         | Inr results_response \<Rightarrow>
             if status_code results_response = 200 then
               (case body results_response of
                  None \<Rightarrow> (Raised JSONDecodeError, w3)
                | Some r \<Rightarrow>
                    (Rerun, w3\<lparr>state := (state w3)\<lparr>results := r, analysis_complete := True\<rparr>\<rparr>))
             else (Done, w3))"

text \<open>
  One pass through the body of \<open>for attempt in range(max_attempts)\<close>. \<open>None\<close>: the body
  ran to its end and the loop goes on. \<open>Some Done\<close>: a \<open>break\<close>. \<open>Some (Raised e)\<close>: an
  exception on its way to the handler of the enclosing \<open>try\<close>. \<open>Some Rerun\<close>:
  \<open>st.rerun()\<close>, which ends the run of the script. The loop takes the attempts of the
  range one by one.
\<close>

definition video_attempt :: "py_runtime \<Rightarrow> server \<Rightarrow> nat \<Rightarrow> world \<Rightarrow> outcome option \<times> world" where
  "video_attempt rt srv attempt w =
     (let w1 = emit (Http (JobStatus (job_id (state w))) (Some 5)) w
      in case job_status srv attempt of
           Inl e \<Rightarrow> (Some (Raised e), w1)
         | Inr status_response \<Rightarrow>
             if status_code status_response = 200 then
               (case body status_response of
                  None \<Rightarrow> (Some (Raised JSONDecodeError), w1)
                | Some status_data \<Rightarrow>
                    (case subscript status_data ''status'' of
                       Inl e \<Rightarrow> (Some (Raised e), w1)
                     | Inr status \<Rightarrow>
                         if status = JStr ''completed'' then
                           (case video_completed srv w1 of (out, w2) \<Rightarrow> (Some out, w2))
                         else if status = JStr ''failed'' then
                           (case dict_get status_data ''error'' (JStr ''Unknown error'') of
                              Inl e \<Rightarrow> (Some (Raised e), w1)
                            | Inr msg \<Rightarrow>
                                (Some Done,
                                 emit (Error (cross_mark @ '' Analysis failed: '' @ py_str rt msg)) w1))
                         else
                           (let progress = progress_estimate attempt;
                                w2 = emit (Progress (py_int progress)) w1;
                                w3 = emit (Info (hourglass @ '' Processing... (''
                                                 @ show_nat (attempt * 2) @ ''s elapsed)'')) w2;
                                w4 = emit (Sleep 2) w3
                            in (None, w4))))
             else (Some Done, emit (Error ''Failed to check status'') w1))"

fun video_poll_loop :: "py_runtime \<Rightarrow> server \<Rightarrow> nat list \<Rightarrow> world \<Rightarrow> outcome \<times> world" where
  "video_poll_loop rt srv [] w = (Done, w)"
| "video_poll_loop rt srv (attempt # rest) w =
     (case video_attempt rt srv attempt w of
        (Some out, w') \<Rightarrow> (out, w')
      | (None, w') \<Rightarrow> video_poll_loop rt srv rest w')"

definition video_polling :: "py_runtime \<Rightarrow> server \<Rightarrow> world \<Rightarrow> outcome \<times> world" where
  "video_polling rt srv w = video_poll_loop rt srv [0..<max_attempts] (emit (Progress 0) w)"

section \<open>Image sequence: the polling loop (lines 277-311)\<close>

definition image_completed :: "server \<Rightarrow> world \<Rightarrow> outcome \<times> world" where
  "image_completed srv w =
     (let w1 = emit (Progress 100) w;
          w2 = emit (Success (check_mark @ '' Analysis complete!'')) w1;
          w3 = emit (Http (ResultFetch (job_id (state w2))) None) w2
      in case job_result srv of
           Inl e \<Rightarrow> (Raised e, w3)
         | Inr results_response \<Rightarrow>
             if status_code results_response = 200 then
               (case body results_response of
                  None \<Rightarrow> (Raised JSONDecodeError, w3)
                | Some r \<Rightarrow>
                    (Rerun, w3\<lparr>state := (state w3)\<lparr>results := r, analysis_complete := True\<rparr>\<rparr>))
             else (Done, w3))"

definition image_attempt :: "py_runtime \<Rightarrow> server \<Rightarrow> nat \<Rightarrow> world \<Rightarrow> outcome option \<times> world" where
  "image_attempt rt srv attempt w =
     (let w1 = emit (Http (JobStatus (job_id (state w))) None) w
      in case job_status srv attempt of
           Inl e \<Rightarrow> (Some (Raised e), w1)
         | Inr status_response \<Rightarrow>
             if status_code status_response = 200 then
               (case body status_response of
                  None \<Rightarrow> (Some (Raised JSONDecodeError), w1)
                | Some status_data \<Rightarrow>
                    (case subscript status_data ''status'' of
                       Inl e \<Rightarrow> (Some (Raised e), w1)
                     | Inr status \<Rightarrow>
                         if status = JStr ''completed'' then
                           (case image_completed srv w1 of (out, w2) \<Rightarrow> (Some out, w2))
                         else if status = JStr ''failed'' then
                           (case dict_get status_data ''error'' (JStr ''Unknown error'') of
                              Inl e \<Rightarrow> (Some (Raised e), w1)
                            | Inr msg \<Rightarrow>
                                (Some Done,
                                 emit (Error (cross_mark @ '' Analysis failed: '' @ py_str rt msg)) w1))
                         else
                           (let progress = progress_estimate attempt;
                                w2 = emit (Progress (py_int progress)) w1;
                                w3 = emit (Info (hourglass @ '' Processing... (''
                                                 @ show_nat (attempt * 2) @ ''s elapsed)'')) w2;
                                w4 = emit (Sleep 2) w3
                            in (None, w4))))
             else (None, w1))"

fun image_poll_loop :: "py_runtime \<Rightarrow> server \<Rightarrow> nat list \<Rightarrow> world \<Rightarrow> outcome \<times> world" where
  "image_poll_loop rt srv [] w = (Done, w)"
| "image_poll_loop rt srv (attempt # rest) w =
     (case image_attempt rt srv attempt w of
        (Some out, w') \<Rightarrow> (out, w')
      | (None, w') \<Rightarrow> image_poll_loop rt srv rest w')"

definition image_polling :: "py_runtime \<Rightarrow> server \<Rightarrow> world \<Rightarrow> outcome \<times> world" where
  "image_polling rt srv w = image_poll_loop rt srv [0..<max_attempts] (emit (Progress 0) w)"

section \<open>Tab 1: upload and submission (lines 140-316)\<close>

text \<open>\<open>uploaded_file.size / 1024 / 1024\<close>.\<close>

definition size_mb :: "upload \<Rightarrow> rat" where
  "size_mb f = fl (fl (of_nat (length (file_bytes f)) / 1024) / 1024)"

text \<open>The body of the \<open>try\<close> of the video branch (lines 161-225).\<close>

definition video_submit :: "py_runtime \<Rightarrow> user \<Rightarrow> server \<Rightarrow> upload \<Rightarrow> world \<Rightarrow> outcome \<times> world" where
  "video_submit rt usr srv f w =
     (let w1 = emit (Http (SubmitVideo (file_bytes f) (analysis_mode usr) (sampling_mode usr))
                       (Some 60)) w
      in case analyze_video srv of
           Inl e \<Rightarrow> (Raised e, w1)
         | Inr resp \<Rightarrow>
             if status_code resp = 200 then
               (case body resp of
                  None \<Rightarrow> (Raised JSONDecodeError, w1)
                | Some result \<Rightarrow>
                    (case subscript result ''job_id'' of
                       Inl e \<Rightarrow> (Raised e, w1)
                     | Inr jid \<Rightarrow>
                         (let w2 = w1\<lparr>state := (state w1)\<lparr>job_id := jid\<rparr>\<rparr>
                          in case slice_to 8 jid of
                               Inl e \<Rightarrow> (Raised e, w2)
                             | Inr pre \<Rightarrow>
                                 video_polling rt srv
                                   (emit (Success (check_mark @ '' Analysis started! Job ID: ''
                                                   @ py_str rt pre @ ''...'')) w2))))
             else (Done, emit (Error (''Upload failed: '' @ show_int (status_code resp))) w1))"

definition tab1_video :: "py_runtime \<Rightarrow> user \<Rightarrow> server \<Rightarrow> world \<Rightarrow> outcome \<times> world" where
  "tab1_video rt usr srv w =
     (case uploaded_file usr of
        None \<Rightarrow> (Done, w)
      | Some f \<Rightarrow>
          (let w1 = emit (VideoPlayer (file_name f)) w;
               w2 = emit (Info (video_camera @ '' **'' @ file_name f @ ''** - ''
                                @ format_fixed rt 2 (JFloat (size_mb f)) @ '' MB'')) w1
           in if analyze_clicked usr then
                (case video_submit rt usr srv f w2 of
                   (Raised e, w3) \<Rightarrow> (Done, emit (ErrorExc ''Error: '' e) w3)
                 | (out, w3) \<Rightarrow> (out, w3))
              else (Done, w2)))"

text \<open>The body of the \<open>try\<close> of the image branch (lines 257-313).\<close>

definition images_submit :: "py_runtime \<Rightarrow> user \<Rightarrow> server \<Rightarrow> upload list \<Rightarrow> world \<Rightarrow> outcome \<times> world" where
  "images_submit rt usr srv fs w =
     (let w1 = emit (Http (SubmitImages (map file_bytes fs) (sequence_type usr) (analysis_mode usr))
                       (Some 60)) w
      in case analyze_images srv of
           Inl e \<Rightarrow> (Raised e, w1)
         | Inr resp \<Rightarrow>
             if status_code resp = 200 then
               (case body resp of
                  None \<Rightarrow> (Raised JSONDecodeError, w1)
                | Some result \<Rightarrow>
                    (case subscript result ''job_id'' of
                       Inl e \<Rightarrow> (Raised e, w1)
                     | Inr jid \<Rightarrow>
                         (let w2 = w1\<lparr>state := (state w1)\<lparr>job_id := jid\<rparr>\<rparr>
                          in case slice_to 8 jid of
                               Inl e \<Rightarrow> (Raised e, w2)
                             | Inr pre \<Rightarrow>
                                 image_polling rt srv
                                   (emit (Success (check_mark @ '' Analysis started! Job ID: ''
                                                   @ py_str rt pre @ ''...'')) w2))))
             else (Done, emit (Error (''Upload failed: '' @ show_int (status_code resp))) w1))"

text \<open>The thumbnails (lines 243-246): outside any \<open>try\<close>, so a failure ends the run.\<close>

fun show_thumbnails :: "upload list \<Rightarrow> world \<Rightarrow> outcome \<times> world" where
  "show_thumbnails [] w = (Done, w)"
| "show_thumbnails (img_file # rest) w =
     (case st_image img_file w of
        (Done, w') \<Rightarrow> show_thumbnails rest w'
      | (out, w') \<Rightarrow> (out, w'))"

definition tab1_images :: "py_runtime \<Rightarrow> user \<Rightarrow> server \<Rightarrow> world \<Rightarrow> outcome \<times> world" where
  "tab1_images rt usr srv w =
     (let fs = uploaded_files usr
      in if fs \<noteq> [] then
           (let w1 = emit (Info (camera_flash @ '' '' @ show_nat (length fs) @ '' images uploaded'')) w
            in case show_thumbnails (take 5 fs) w1 of
                 (Done, w2) \<Rightarrow>
                   (let w3 = (if 5 < length fs
                              then emit (Caption (''... and '' @ show_nat (length fs - 5)
                                                 @ '' more images'')) w2
                              else w2)
                    in if length fs < 2 then
                         (Done, emit (Warning (warning_sign
                                        @ '' Please upload at least 2 images for sequence analysis'')) w3)
                       else if analyze_clicked usr then
                         (case images_submit rt usr srv fs w3 of
                            (Raised e, w4) \<Rightarrow> (Done, emit (ErrorExc ''Error: '' e) w4)
                          | (out, w4) \<Rightarrow> (out, w4))
                       else (Done, w3))
               | (out, w2) \<Rightarrow> (out, w2))
         else (Done, w))"

definition tab1 :: "py_runtime \<Rightarrow> user \<Rightarrow> server \<Rightarrow> world \<Rightarrow> outcome \<times> world" where
  "tab1 rt usr srv w =
     (case media_type usr of
        Video \<Rightarrow> tab1_video rt usr srv w
      | ImageSequence \<Rightarrow> tab1_images rt usr srv w)"

section \<open>The helper \<open>display_finding\<close> (lines 472-508)\<close>

text \<open>\<open>k in v\<close> for a string \<open>k\<close>.\<close>

definition py_contains :: "string \<Rightarrow> json \<Rightarrow> py_error + bool" where
  "py_contains k v =
     (case v of
        JObj d \<Rightarrow> Inr (map_of d k \<noteq> None)
      | JList xs \<Rightarrow> Inr (List.member xs (JStr k))
      | JStr s \<Rightarrow> Inr (str_in k s)
      | _ \<Rightarrow> Inl TypeError)"

text \<open>\<open>f"{v:.Nf}"\<close>.\<close>

definition format_number :: "py_runtime \<Rightarrow> nat \<Rightarrow> json \<Rightarrow> py_error + string" where
  "format_number rt n v =
     (case v of
        JInt i \<Rightarrow> Inr (format_fixed rt n v)
      | JFloat q \<Rightarrow> Inr (format_fixed rt n v)
      | JBool b \<Rightarrow> Inr (format_fixed rt n v)
      | JStr s \<Rightarrow> Inl ValueError
      | _ \<Rightarrow> Inl TypeError)"

text \<open>\<open>sep.join(parts)\<close>.\<close>

fun join :: "string \<Rightarrow> string list \<Rightarrow> string" where
  "join sep [] = []"
| "join sep [x] = x"
| "join sep (x # y # ys) = x @ sep @ join sep (y # ys)"

text \<open>The text for \<open>location['frames']\<close> (lines 483-486).\<close>

definition frames_text :: "py_runtime \<Rightarrow> json \<Rightarrow> py_error + string" where
  "frames_text rt frames =
     (case slice_to 5 frames of
        Inl e \<Rightarrow> Inl e
      | Inr first \<Rightarrow>
          (case py_iter first of
             Inl e \<Rightarrow> Inl e
           | Inr shown \<Rightarrow>
               (let loc_str = ''Frames: '' @ join '', '' (map (py_str rt) shown)
                in case py_len frames of
                     Inl e \<Rightarrow> Inl e
                   | Inr n \<Rightarrow>
                       Inr (if 5 < n then loc_str @ ''... ('' @ show_nat n @ '' total)''
                            else loc_str))))"

text \<open>\<open>loc_str\<close> (lines 480-488).\<close>

definition location_text :: "py_runtime \<Rightarrow> json \<Rightarrow> py_error + string" where
  "location_text rt location =
     (case py_contains ''start'' location of
        Inl e \<Rightarrow> Inl e
      | Inr has_start \<Rightarrow>
          (case (if has_start then py_contains ''end'' location else Inr False) of
             Inl e \<Rightarrow> Inl e
           | Inr has_both \<Rightarrow>
               if has_both then
                 (case subscript location ''start'' of
                    Inl e \<Rightarrow> Inl e
                  | Inr a \<Rightarrow>
                      (case format_number rt 2 a of
                         Inl e \<Rightarrow> Inl e
                       | Inr a_str \<Rightarrow>
                           (case subscript location ''end'' of
                              Inl e \<Rightarrow> Inl e
                            | Inr b \<Rightarrow>
                                (case format_number rt 2 b of
                                   Inl e \<Rightarrow> Inl e
                                 | Inr b_str \<Rightarrow> Inr (a_str @ ''s - '' @ b_str @ ''s'')))))
               else
                 (case py_contains ''frames'' location of
                    Inl e \<Rightarrow> Inl e
                  | Inr has_frames \<Rightarrow>
                      if has_frames then
                        (case subscript location ''frames'' of
                           Inl e \<Rightarrow> Inl e
                         | Inr frames \<Rightarrow> frames_text rt frames)
                      else Inr ''N/A'')))"

text \<open>The metrics of the expander (lines 502-508).\<close>

fun finding_metrics :: "py_runtime \<Rightarrow> (string \<times> json) list \<Rightarrow> world \<Rightarrow> outcome \<times> world" where
  "finding_metrics rt [] w = (Done, w)"
| "finding_metrics rt (kv # rest) w =
     (let formatted_key = title (replace ''_'' '' '' (fst kv))
      in case (case snd kv of
                 JFloat q \<Rightarrow> st_metric formatted_key (JStr (format_fixed rt 4 (snd kv))) w
               | _ \<Rightarrow> st_metric formatted_key (snd kv) w) of
           (Done, w') \<Rightarrow> finding_metrics rt rest w'
         | (out, w') \<Rightarrow> (out, w'))"

text \<open>
  The card is recorded by its parts: the severity class, \<open>finding_type\<close>, \<open>loc_str\<close> and
  the explanation as the f-string renders it.
\<close>

definition display_finding :: "py_runtime \<Rightarrow> json \<Rightarrow> string \<Rightarrow> world \<Rightarrow> outcome \<times> world" where
  "display_finding rt finding severity w =
     (case dict_get finding ''type'' (JStr ''Unknown'') of
        Inl e \<Rightarrow> (Raised e, w)
      | Inr ty \<Rightarrow>
          (case ty of
             JStr ty_str \<Rightarrow>
               (let finding_type = replace ''_'' '' '' (replace ''FindingType.'' [] ty_str)
                in case dict_get finding ''location'' (JObj []) of
                     Inl e \<Rightarrow> (Raised e, w)
                   | Inr location \<Rightarrow>
                       (case dict_get finding ''explanation'' (JStr []) of
                          Inl e \<Rightarrow> (Raised e, w)
                        | Inr explanation \<Rightarrow>
                            (case dict_get finding ''metrics'' (JObj []) of
                               Inl e \<Rightarrow> (Raised e, w)
                             | Inr metrics \<Rightarrow>
                                 (case location_text rt location of
                                    Inl e \<Rightarrow> (Raised e, w)
                                  | Inr loc_str \<Rightarrow>
                                      (let w1 = emit (FindingCard severity finding_type loc_str
                                                        (py_str rt explanation)) w
                                       in if truthy metrics then
                                            (case py_items metrics of
                                               Inl e \<Rightarrow> (Raised e, w1)
                                             | Inr items \<Rightarrow> finding_metrics rt items w1)
                                          else (Done, w1))))))
           | _ \<Rightarrow> (Raised AttributeError, w)))"

section \<open>Tab 2: results (lines 318-469)\<close>

text \<open>
  The names the module has bound by its own \<open>def\<close> statements so far. The script is run
  from its first line in a fresh module on every run, so the list starts empty.
\<close>

type_synonym globals = "string list"

text \<open>A call \<open>display_finding(finding, severity)\<close> at module level.\<close>

definition call_display_finding ::
    "globals \<Rightarrow> py_runtime \<Rightarrow> json \<Rightarrow> string \<Rightarrow> world \<Rightarrow> outcome \<times> world" where
  "call_display_finding g rt finding severity w =
     (if List.member g ''display_finding'' then display_finding rt finding severity w
      else (Raised (NameError ''display_finding''), w))"

text \<open>Media information (lines 334-342).\<close>

fun media_metrics :: "(string \<times> json) list \<Rightarrow> world \<Rightarrow> outcome \<times> world" where
  "media_metrics [] w = (Done, w)"
| "media_metrics (kv # rest) w =
     (case st_metric (title (replace ''_'' '' '' (fst kv))) (snd kv) w of
        (Done, w') \<Rightarrow> media_metrics rest w'
      | (out, w') \<Rightarrow> (out, w'))"

definition media_information :: "json \<Rightarrow> world \<Rightarrow> outcome \<times> world" where
  "media_information res w =
     (case dict_get res ''media_info'' (JObj []) of
        Inl e \<Rightarrow> (Raised e, w)
      | Inr media_info \<Rightarrow>
          (case py_items media_info of
             Inl e \<Rightarrow> (Raised e, w)
           | Inr items \<Rightarrow> media_metrics items w))"

text \<open>The timeline loop (lines 353-372); an entry is the dict appended to \<open>timeline_data\<close>
  (\<open>finish\<close> is the script's \<open>end\<close>).\<close>

definition timeline_color :: "string \<Rightarrow> string" where
  "timeline_color severity =
     (if str_in ''high'' severity then ''#dc2626''
      else if str_in ''medium'' severity then ''#ea580c''
      else ''#f59e0b'')"

definition timeline_entry :: "py_runtime \<Rightarrow> json \<Rightarrow> py_error + json" where
  "timeline_entry rt finding =
     (case dict_get finding ''severity'' (JStr []) of
        Inl e \<Rightarrow> Inl e
      | Inr sev \<Rightarrow>
          (let severity = lower (py_str rt sev);
               color = timeline_color severity
           in case dict_get finding ''location'' (JObj []) of
                Inl e \<Rightarrow> Inl e
              | Inr location \<Rightarrow>
                  (case dict_get location ''start'' (JInt 0) of
                     Inl e \<Rightarrow> Inl e
                   | Inr start \<Rightarrow>
                       (case dict_get location ''end'' (JInt 0) of
                          Inl e \<Rightarrow> Inl e
                        | Inr finish \<Rightarrow>
                            (case dict_get finding ''type'' (JStr ''Unknown'') of
                               Inl e \<Rightarrow> Inl e
                             | Inr ty \<Rightarrow>
                                 Inr (JObj [(''start'', start), (''end'', finish),
                                            (''color'', JStr color), (''type'', ty)]))))))"

fun timeline_data :: "py_runtime \<Rightarrow> json list \<Rightarrow> py_error + json list" where
  "timeline_data rt [] = Inr []"
| "timeline_data rt (finding # rest) =
     (case timeline_entry rt finding of
        Inl e \<Rightarrow> Inl e
      | Inr entry \<Rightarrow>
          (case timeline_data rt rest of
             Inl e \<Rightarrow> Inl e
           | Inr entries \<Rightarrow> Inr (entry # entries)))"

text \<open>\<open>kw in str(f.get('severity', '')).lower()\<close>, the test of all six comprehensions.\<close>

definition severity_has :: "py_runtime \<Rightarrow> string \<Rightarrow> json \<Rightarrow> py_error + bool" where
  "severity_has rt kw f =
     (case dict_get f ''severity'' (JStr []) of
        Inl e \<Rightarrow> Inl e
      | Inr sev \<Rightarrow> Inr (str_in kw (lower (py_str rt sev))))"

text \<open>\<open>[f for f in findings if kw in str(f.get('severity', '')).lower()]\<close>.\<close>

fun select_findings :: "py_runtime \<Rightarrow> string \<Rightarrow> json list \<Rightarrow> py_error + json list" where
  "select_findings rt kw [] = Inr []"
| "select_findings rt kw (f # rest) =
     (case severity_has rt kw f of
        Inl e \<Rightarrow> Inl e
      | Inr hit \<Rightarrow>
          (case select_findings rt kw rest of
             Inl e \<Rightarrow> Inl e
           | Inr chosen \<Rightarrow> Inr (if hit then f # chosen else chosen)))"

text \<open>The dict \<open>severity_counts\<close> (lines 376-380), by its three values.\<close>

record counts =
  count_high :: nat
  count_medium :: nat
  count_low :: nat

definition severity_counts :: "py_runtime \<Rightarrow> json list \<Rightarrow> py_error + counts" where
  "severity_counts rt findings =
     (case select_findings rt ''high'' findings of
        Inl e \<Rightarrow> Inl e
      | Inr hs \<Rightarrow>
          (case select_findings rt ''medium'' findings of
             Inl e \<Rightarrow> Inl e
           | Inr ms \<Rightarrow>
               (case select_findings rt ''low'' findings of
                  Inl e \<Rightarrow> Inl e
                | Inr ls \<Rightarrow>
                    Inr \<lparr>count_high = length hs, count_medium = length ms, count_low = length ls\<rparr>)))"

definition high_findings :: "py_runtime \<Rightarrow> json list \<Rightarrow> py_error + json list" where
  "high_findings rt findings = select_findings rt ''high'' findings"

definition medium_findings :: "py_runtime \<Rightarrow> json list \<Rightarrow> py_error + json list" where
  "medium_findings rt findings = select_findings rt ''medium'' findings"

definition low_findings :: "py_runtime \<Rightarrow> json list \<Rightarrow> py_error + json list" where
  "low_findings rt findings = select_findings rt ''low'' findings"

text \<open>\<open>for finding in grp: display_finding(finding, severity)\<close>.\<close>

fun display_each ::
    "globals \<Rightarrow> py_runtime \<Rightarrow> string \<Rightarrow> json list \<Rightarrow> world \<Rightarrow> outcome \<times> world" where
  "display_each g rt severity [] w = (Done, w)"
| "display_each g rt severity (finding # rest) w =
     (case call_display_finding g rt finding severity w of
        (Done, w') \<Rightarrow> display_each g rt severity rest w'
      | (out, w') \<Rightarrow> (out, w'))"

text \<open>One of the three groups (lines 408-411, 414-417, 420-423).\<close>

definition display_group ::
    "globals \<Rightarrow> py_runtime \<Rightarrow> string list \<Rightarrow> string \<Rightarrow> string \<Rightarrow> string \<Rightarrow> json list \<Rightarrow> world
      \<Rightarrow> outcome \<times> world" where
  "display_group g rt flt label heading severity grp w =
     (if List.member flt label \<and> grp \<noteq> []
      then display_each g rt severity grp (emit (Subheader heading) w)
      else (Done, w))"

text \<open>Export (lines 428-463).\<close>

definition export_results :: "py_runtime \<Rightarrow> user \<Rightarrow> server \<Rightarrow> world \<Rightarrow> outcome \<times> world" where
  "export_results rt usr srv w =
     (case slice_to 8 (job_id (state w)) of
        Inl e \<Rightarrow> (Raised e, w)
      | Inr pre \<Rightarrow>
          (let w1 = emit (Download (''frame-analysis-'' @ py_str rt pre @ ''.json'')) w
           in if pdf_clicked usr then
                (let w2 = emit (Http (PdfExport (job_id (state w1))) (Some 30)) w1
                 in case export_pdf srv of
                      Inl e \<Rightarrow> (Done, emit (ErrorExc ''Error downloading PDF: '' e) w2)
                    | Inr pdf_response \<Rightarrow>
                        if status_code pdf_response = 200 then
                          (case slice_to 8 (job_id (state w2)) of
                             Inl e \<Rightarrow> (Done, emit (ErrorExc ''Error downloading PDF: '' e) w2)
                           | Inr pre2 \<Rightarrow>
                               (Done, emit (Download (''frame-analysis-report-'' @ py_str rt pre2
                                                      @ ''.pdf'')) w2))
                        else (Done, emit (Error ''PDF generation failed'') w2))
              else (Done, w1)))"

text \<open>
  The branch \<open>if findings:\<close> (lines 350-463), for the elements of \<open>findings\<close>. The three
  counts are integers, which \<open>st.metric\<close> accepts.
\<close>

definition findings_section ::
    "globals \<Rightarrow> py_runtime \<Rightarrow> user \<Rightarrow> server \<Rightarrow> json list \<Rightarrow> world \<Rightarrow> outcome \<times> world" where
  "findings_section g rt usr srv findings w =
     (case timeline_data rt findings of
        Inl e \<Rightarrow> (Raised e, w)
      | Inr timeline \<Rightarrow>
          (case severity_counts rt findings of
             Inl e \<Rightarrow> (Raised e, w)
           | Inr c \<Rightarrow>
               (let w1 = emit (Metric (red_circle @ '' High Severity'') (JInt (int (count_high c)))) w;
                    w2 = emit (Metric (orange_circle @ '' Medium Severity'')
                                 (JInt (int (count_medium c)))) w1;
                    w3 = emit (Metric (yellow_circle @ '' Low Severity'') (JInt (int (count_low c)))) w2
                in case high_findings rt findings of
                     Inl e \<Rightarrow> (Raised e, w3)
                   | Inr hs \<Rightarrow>
                       (case medium_findings rt findings of
                          Inl e \<Rightarrow> (Raised e, w3)
                        | Inr ms \<Rightarrow>
                            (case low_findings rt findings of
                               Inl e \<Rightarrow> (Raised e, w3)
                             | Inr ls \<Rightarrow>
                                 (case display_group g rt (severity_filter usr) ''High''
                                         (red_circle @ '' High Severity Findings'') ''high'' hs w3 of
                                    (Done, w4) \<Rightarrow>
                                      (case display_group g rt (severity_filter usr) ''Medium''
                                              (orange_circle @ '' Medium Severity Findings'')
                                              ''medium'' ms w4 of
                                         (Done, w5) \<Rightarrow>
                                           (case display_group g rt (severity_filter usr) ''Low''
                                                   (yellow_circle @ '' Low Severity Findings'')
                                                   ''low'' ls w5 of
                                              (Done, w6) \<Rightarrow> export_results rt usr srv w6
                                            | (out, w6) \<Rightarrow> (out, w6))
                                       | (out, w5) \<Rightarrow> (out, w5))
                                  | (out, w4) \<Rightarrow> (out, w4)))))))"

definition tab2 :: "globals \<Rightarrow> py_runtime \<Rightarrow> user \<Rightarrow> server \<Rightarrow> world \<Rightarrow> outcome \<times> world" where
  "tab2 g rt usr srv w =
     (if truthy (results (state w)) then
        (case media_information (results (state w)) w of
           (Done, w1) \<Rightarrow>
             (case dict_get (results (state w)) ''findings'' (JList []) of
                Inl e \<Rightarrow> (Raised e, w1)
              | Inr findings \<Rightarrow>
                  if truthy findings then
                    (case py_iter findings of
                       Inl e \<Rightarrow> (Raised e, w1)
                     | Inr fs \<Rightarrow> findings_section g rt usr srv fs w1)
                  else
                    (Done, emit (Success (check_mark
                                   @ '' No anomalies detected - media appears consistent'')) w1))
         | (out, w1) \<Rightarrow> (out, w1))
      else
        (Done, emit (Info (point_up @ '' Upload and analyze media in the '' @ [CHR 0x27]
                           @ ''Upload & Analyze'' @ [CHR 0x27] @ '' tab to see results here'')) w))"

section \<open>One run of the script\<close>

text \<open>
  Top to bottom: the base address from the secrets (line 14), sidebar, tab 1, tab 2, then
  the \<open>def\<close> of \<open>display_finding\<close> (line 472) and the footer. An exception that no
  handler catches and \<open>st.rerun()\<close> end the run where they occur.
\<close>

definition app :: "py_runtime \<Rightarrow> user \<Rightarrow> server \<Rightarrow> world \<Rightarrow> outcome \<times> world" where
  "app rt usr srv w =
     (if secrets_configured srv then
        (let g0 = ([] :: globals);
             w1 = sidebar srv w
         in case tab1 rt usr srv w1 of
              (Done, w2) \<Rightarrow>
                (case tab2 g0 rt usr srv w2 of
                   (Done, w3) \<Rightarrow>
                     (let g1 = ''display_finding'' # g0
                      in (Done, emit (Caption (clapper_board
                                    @ '' Frame Analysis System | Powered by Advanced Computer Vision''))
                                  w3))
                 | (out, w3) \<Rightarrow> (out, w3))
            | (out, w2) \<Rightarrow> (out, w2))
      else (Raised SecretNotFoundError, w))"

section \<open>Reading a trace\<close>

text \<open>What a run added to the trace it started with.\<close>

definition emitted :: "world \<Rightarrow> outcome \<times> world \<Rightarrow> event list" where
  "emitted w r = drop (length (trace w)) (trace (snd r))"

fun is_http :: "event \<Rightarrow> bool" where
  "is_http (Http r t) = True"
| "is_http e = False"

fun is_status_poll :: "event \<Rightarrow> bool" where
  "is_status_poll (Http (JobStatus j) t) = True"
| "is_status_poll e = False"

fun is_result_fetch :: "event \<Rightarrow> bool" where
  "is_result_fetch (Http (ResultFetch j) t) = True"
| "is_result_fetch e = False"

text \<open>An error shown to the user: \<open>st.error\<close>, with a fixed text or with \<open>str(e)\<close>.\<close>

fun is_error :: "event \<Rightarrow> bool" where
  "is_error (Error m) = True"
| "is_error (ErrorExc m e) = True"
| "is_error e = False"

fun is_warning :: "event \<Rightarrow> bool" where
  "is_warning (Warning m) = True"
| "is_warning e = False"

fun is_card :: "event \<Rightarrow> bool" where
  "is_card (FindingCard s t l x) = True"
| "is_card e = False"

fun http_timeout :: "event \<Rightarrow> (request \<times> nat option) option" where
  "http_timeout (Http r t) = Some (r, t)"
| "http_timeout e = None"

fun progress_of :: "event \<Rightarrow> int option" where
  "progress_of (Progress v) = Some v"
| "progress_of e = None"

fun info_of :: "event \<Rightarrow> string option" where
  "info_of (Info m) = Some m"
| "info_of e = None"

definition http_timeouts :: "event list \<Rightarrow> (request \<times> nat option) list" where
  "http_timeouts tr = List.map_filter http_timeout tr"

definition progress_values :: "event list \<Rightarrow> int list" where
  "progress_values tr = List.map_filter progress_of tr"

definition info_texts :: "event list \<Rightarrow> string list" where
  "info_texts tr = List.map_filter info_of tr"

section \<open>Concrete runs\<close>

text \<open>
  A stand-in for the interpreter's renderings; no example renders a list or a dict, and
  the one float (the size of an upload) appears only in the file banner.
\<close>

definition rt0 :: py_runtime where
  "rt0 = \<lparr>repr_value = (\<lambda>v. ''<repr>''), format_fixed = (\<lambda>n v. ''<number>'')\<rparr>"

text \<open>A session that has not analysed anything yet (lines 76-81).\<close>

definition w0 :: world where
  "w0 = \<lparr>state = \<lparr>job_id = JNull, results = JNull, analysis_complete = False\<rparr>, trace = []\<rparr>"

definition ok_json :: "json \<Rightarrow> py_error + response" where
  "ok_json j = Inr \<lparr>status_code = 200, body = Some j, content = []\<rparr>"

definition http_status :: "int \<Rightarrow> py_error + response" where
  "http_status c = Inr \<lparr>status_code = c, body = None, content = []\<rparr>"

definition status_json :: "string \<Rightarrow> json" where
  "status_json s = JObj [(''status'', JStr s)]"

text \<open>Two PNG files of one pixel each, a black one and a white one.\<close>

definition png_black :: string where
  "png_black = [
      CHR 0x89, CHR 0x50, CHR 0x4E, CHR 0x47, CHR 0x0D, CHR 0x0A, CHR 0x1A, CHR 0x0A,
      CHR 0x00, CHR 0x00, CHR 0x00, CHR 0x0D, CHR 0x49, CHR 0x48, CHR 0x44, CHR 0x52,
      CHR 0x00, CHR 0x00, CHR 0x00, CHR 0x01, CHR 0x00, CHR 0x00, CHR 0x00, CHR 0x01,
      CHR 0x08, CHR 0x00, CHR 0x00, CHR 0x00, CHR 0x00, CHR 0x3A, CHR 0x7E, CHR 0x9B,
      CHR 0x55, CHR 0x00, CHR 0x00, CHR 0x00, CHR 0x0A, CHR 0x49, CHR 0x44, CHR 0x41,
      CHR 0x54, CHR 0x78, CHR 0xDA, CHR 0x63, CHR 0x60, CHR 0x00, CHR 0x00, CHR 0x00,
      CHR 0x02, CHR 0x00, CHR 0x01, CHR 0xE5, CHR 0x27, CHR 0xDE, CHR 0xFC, CHR 0x00,
      CHR 0x00, CHR 0x00, CHR 0x00, CHR 0x49, CHR 0x45, CHR 0x4E, CHR 0x44, CHR 0xAE,
      CHR 0x42, CHR 0x60, CHR 0x82]"

definition png_white :: string where
  "png_white = [
      CHR 0x89, CHR 0x50, CHR 0x4E, CHR 0x47, CHR 0x0D, CHR 0x0A, CHR 0x1A, CHR 0x0A,
      CHR 0x00, CHR 0x00, CHR 0x00, CHR 0x0D, CHR 0x49, CHR 0x48, CHR 0x44, CHR 0x52,
      CHR 0x00, CHR 0x00, CHR 0x00, CHR 0x01, CHR 0x00, CHR 0x00, CHR 0x00, CHR 0x01,
      CHR 0x08, CHR 0x00, CHR 0x00, CHR 0x00, CHR 0x00, CHR 0x3A, CHR 0x7E, CHR 0x9B,
      CHR 0x55, CHR 0x00, CHR 0x00, CHR 0x00, CHR 0x0A, CHR 0x49, CHR 0x44, CHR 0x41,
      CHR 0x54, CHR 0x78, CHR 0xDA, CHR 0x63, CHR 0xF8, CHR 0x0F, CHR 0x00, CHR 0x01,
      CHR 0x01, CHR 0x01, CHR 0x00, CHR 0x1C, CHR 0xB0, CHR 0x8C, CHR 0x99, CHR 0x00,
      CHR 0x00, CHR 0x00, CHR 0x00, CHR 0x49, CHR 0x45, CHR 0x4E, CHR 0x44, CHR 0xAE,
      CHR 0x42, CHR 0x60, CHR 0x82]"

definition img1 :: upload where
  "img1 = \<lparr>file_name = ''a.png'', file_bytes = png_black, decodes_as_image = True\<rparr>"

definition img2 :: upload where
  "img2 = \<lparr>file_name = ''b.png'', file_bytes = png_white, decodes_as_image = True\<rparr>"

text \<open>A text file renamed to \<open>c.png\<close>: the uploader filters by extension only.\<close>

definition img_broken :: upload where
  "img_broken = \<lparr>file_name = ''c.png'', file_bytes = ''not an image'', decodes_as_image = False\<rparr>"

definition clip :: upload where
  "clip = \<lparr>file_name = ''clip.mp4'', file_bytes = ''V'', decodes_as_image = False\<rparr>"

definition user_images :: "upload list \<Rightarrow> user" where
  "user_images fs =
     \<lparr>media_type = ImageSequence, analysis_mode = ''standard'', sampling_mode = ''sampled'',
      sequence_type = ''ordered'', uploaded_file = None, uploaded_files = fs,
      analyze_clicked = True, severity_filter = [''High'', ''Medium'', ''Low''],
      pdf_clicked = False\<rparr>"

definition user_video :: user where
  "user_video =
     \<lparr>media_type = Video, analysis_mode = ''standard'', sampling_mode = ''sampled'',
      sequence_type = ''ordered'', uploaded_file = Some clip, uploaded_files = [],
      analyze_clicked = True, severity_filter = [''High'', ''Medium'', ''Low''],
      pdf_clicked = False\<rparr>"

text \<open>A user who only looks at the results tab.\<close>

definition user_idle :: user where
  "user_idle =
     \<lparr>media_type = Video, analysis_mode = ''standard'', sampling_mode = ''sampled'',
      sequence_type = ''ordered'', uploaded_file = None, uploaded_files = [],
      analyze_clicked = False, severity_filter = [''High'', ''Medium'', ''Low''],
      pdf_clicked = False\<rparr>"

text \<open>A service that accepts the upload as job \<open>job-1\<close> and answers the polls as given.\<close>

definition service :: "(nat \<Rightarrow> py_error + response) \<Rightarrow> py_error + response \<Rightarrow> server" where
  "service polls res =
     \<lparr>secrets_configured = True,
      health = http_status 200,
      analyze_video = ok_json (JObj [(''job_id'', JStr ''job-1'')]),
      analyze_images = ok_json (JObj [(''job_id'', JStr ''job-1'')]),
      job_status = polls,
      job_result = res,
      export_pdf = http_status 200\<rparr>"

text \<open>The job is complete at the first poll and the result has no findings.\<close>

definition srv_quick :: server where
  "srv_quick = service (\<lambda>a. ok_json (status_json ''completed'')) (ok_json (JObj [(''findings'', JList [])]))"

text \<open>The first status poll is answered with HTTP 500, the job completes at the fourth.\<close>

definition srv_hiccup :: server where
  "srv_hiccup =
     service (\<lambda>a. if a = 0 then http_status 500
                   else if a < 3 then ok_json (status_json ''processing'')
                   else ok_json (status_json ''completed''))
       (ok_json (JObj [(''findings'', JList [])]))"

text \<open>The job completes at the first poll, the result fetch is answered with HTTP 500.\<close>

definition srv_no_result :: server where
  "srv_no_result = service (\<lambda>a. ok_json (status_json ''completed'')) (http_status 500)"

section \<open>Polling sequences\<close>

text \<open>
  What a status poll can be answered with: HTTP 200 and a JSON object whose \<open>status\<close> is
  \<open>queued\<close> or \<open>processing\<close>; HTTP 200 and status \<open>completed\<close>; HTTP 200, status
  \<open>failed\<close> and an \<open>error\<close> text.
\<close>

definition pending :: "py_error + response \<Rightarrow> bool" where
  "pending r =
     (case r of
        Inl e \<Rightarrow> False
      | Inr resp \<Rightarrow>
          status_code resp = 200 \<and>
          (case body resp of
             Some (JObj d) \<Rightarrow>
               map_of d ''status'' = Some (JStr ''queued'') \<or>
               map_of d ''status'' = Some (JStr ''processing'')
           | _ \<Rightarrow> False))"

definition completed :: "py_error + response \<Rightarrow> bool" where
  "completed r =
     (case r of
        Inl e \<Rightarrow> False
      | Inr resp \<Rightarrow>
          status_code resp = 200 \<and>
          (case body resp of
             Some (JObj d) \<Rightarrow> map_of d ''status'' = Some (JStr ''completed'')
           | _ \<Rightarrow> False))"

definition failed_with :: "string \<Rightarrow> py_error + response \<Rightarrow> bool" where
  "failed_with msg r =
     (case r of
        Inl e \<Rightarrow> False
      | Inr resp \<Rightarrow>
          status_code resp = 200 \<and>
          (case body resp of
             Some (JObj d) \<Rightarrow>
               map_of d ''status'' = Some (JStr ''failed'') \<and> map_of d ''error'' = Some (JStr msg)
           | _ \<Rightarrow> False))"

text \<open>The progress bar at a pending attempt, and the text under it.\<close>

definition shown_progress :: "nat \<Rightarrow> int" where
  "shown_progress attempt = py_int (progress_estimate attempt)"

definition elapsed_text :: "nat \<Rightarrow> string" where
  "elapsed_text attempt = hourglass @ '' Processing... ('' @ show_nat (attempt * 2) @ ''s elapsed)''"

text \<open>What one pending attempt adds to the trace, for a poll sent with timeout \<open>t\<close>.\<close>

definition pending_events :: "json \<Rightarrow> nat option \<Rightarrow> nat \<Rightarrow> event list" where
  "pending_events jid t attempt =
     [Http (JobStatus jid) t, Progress (shown_progress attempt), Info (elapsed_text attempt), Sleep 2]"

text \<open>The job never leaves \<open>processing\<close>.\<close>

definition srv_stuck :: server where
  "srv_stuck = service (\<lambda>a. ok_json (status_json ''processing'')) (http_status 500)"

text \<open>Two polls say \<open>processing\<close>, the third says \<open>completed\<close>; the result has no findings.\<close>

definition srv_third :: server where
  "srv_third =
     service (\<lambda>a. if a < 2 then ok_json (status_json ''processing'')
                   else ok_json (status_json ''completed''))
       (ok_json (JObj [(''media_info'', JObj []), (''findings'', JList [])]))"

text \<open>The first poll reports the job as failed.\<close>

definition srv_corrupt :: server where
  "srv_corrupt =
     service (\<lambda>a. ok_json (JObj [(''status'', JStr ''failed''), (''error'', JStr ''corrupt file'')]))
       (http_status 500)"

section \<open>Findings and their severity\<close>

fun is_obj :: "json \<Rightarrow> bool" where
  "is_obj (JObj d) = True"
| "is_obj v = False"

text \<open>The lowercased string form of the severity field of a finding, \<open>''\<close> when it is missing.\<close>

definition severity_text :: "py_runtime \<Rightarrow> json \<Rightarrow> string" where
  "severity_text rt f =
     (case f of
        JObj d \<Rightarrow> lower (py_str rt (get_or d ''severity'' (JStr [])))
      | _ \<Rightarrow> [])"

definition finding_hc :: json where
  "finding_hc = JObj [(''type'', JStr ''FindingType.FRAME_DROP''), (''severity'', JStr ''HIGH confidence'')]"

definition finding_mixed :: json where
  "finding_mixed = JObj [(''severity'', JStr ''High, was Low'')]"

section \<open>Result payloads the results tab can process\<close>

text \<open>
  The shape the script relies on without checking it: the result is an object, its
  \<open>media_info\<close>, when present, is an object whose values \<open>st.metric\<close> can show (no
  list, no object), its \<open>findings\<close>, when present, is a list of objects, and the
  \<open>location\<close> of a finding, when present, is an object.
\<close>

fun metric_ok :: "json \<Rightarrow> bool" where
  "metric_ok (JList xs) = False"
| "metric_ok (JObj d) = False"
| "metric_ok v = True"

definition media_info_ok :: "json \<Rightarrow> bool" where
  "media_info_ok v = (case v of JObj m \<Rightarrow> list_all metric_ok (map snd m) | _ \<Rightarrow> False)"

definition finding_ok :: "json \<Rightarrow> bool" where
  "finding_ok f =
     (case f of
        JObj d \<Rightarrow> is_obj (get_or d ''location'' (JObj []))
      | _ \<Rightarrow> False)"

definition result_ok :: "json \<Rightarrow> bool" where
  "result_ok r =
     (case r of
        JObj d \<Rightarrow>
          media_info_ok (get_or d ''media_info'' (JObj [])) \<and>
          (case get_or d ''findings'' (JList []) of
             JList fs \<Rightarrow> list_all finding_ok fs
           | _ \<Rightarrow> False)
      | _ \<Rightarrow> False)"

text \<open>The findings sequence of a result.\<close>

definition findings_of :: "json \<Rightarrow> json list" where
  "findings_of r =
     (case r of
        JObj d \<Rightarrow> (case get_or d ''findings'' (JList []) of JList fs \<Rightarrow> fs | _ \<Rightarrow> [])
      | _ \<Rightarrow> [])"

text \<open>The severity filter includes a bucket that holds a finding.\<close>

definition bucket_shown :: "py_runtime \<Rightarrow> string list \<Rightarrow> json list \<Rightarrow> bool" where
  "bucket_shown rt flt fs =
     (List.member flt ''High'' \<and> filter (\<lambda>f. str_in ''high'' (severity_text rt f)) fs \<noteq> []
      \<or> List.member flt ''Medium'' \<and> filter (\<lambda>f. str_in ''medium'' (severity_text rt f)) fs \<noteq> []
      \<or> List.member flt ''Low'' \<and> filter (\<lambda>f. str_in ''low'' (severity_text rt f)) fs \<noteq> [])"

text \<open>A session that holds the result \<open>r\<close> of job \<open>job-1\<close>.\<close>

definition session_with :: "json \<Rightarrow> world" where
  "session_with r =
     \<lparr>state = \<lparr>job_id = JStr ''job-1'', results = r, analysis_complete = True\<rparr>, trace = []\<rparr>"

definition result_flagged :: json where
  "result_flagged =
     JObj [(''media_info'', JObj [(''frame_count'', JInt 120)]), (''findings'', JList [finding_hc])]"

text \<open>A result whose only finding has severity \<open>high\<close> and \<open>"location": null\<close>.\<close>

definition result_high_null_location :: json where
  "result_high_null_location =
     JObj [(''findings'', JList [JObj [(''severity'', JStr ''high''), (''location'', JNull)]])]"



section \<open>Facts about the double-precision model\<close>

text \<open>
  \<open>binade\<close> finds the binary exponent, so \<open>fl\<close> can be computed from any exponent that
  brackets its argument, and \<open>fl\<close> is monotone. The progress estimate is therefore
  monotone in the attempt and stays between 0 and 95.
\<close>

lemma pow2_power_int: "pow2 e = power_int 2 e"
  by (simp add: pow2_def power_int_def field_simps)

lemma pow2_pos: "0 < pow2 e"
  by (simp add: pow2_power_int)

lemma pow2_add: "pow2 (a + b) = pow2 a * pow2 b"
  by (simp add: pow2_power_int power_int_add)

lemma pow2_diff: "pow2 (a - b) = pow2 a / pow2 b"
  by (simp add: pow2_power_int power_int_diff)

lemma pow2_mono: "a \<le> b \<Longrightarrow> pow2 a \<le> pow2 b"
  by (simp add: pow2_power_int power_int_increasing)

lemma pow2_of_bitlen:
  assumes "0 < n"
  shows "pow2 (bitlen n - 1) \<le> of_int n" and "of_int n < pow2 (bitlen n)"
proof -
  from bitlen_bounds [OF assms]
  have lo: "2 ^ nat (bitlen n - 1) \<le> n" and hi: "n < 2 ^ nat (bitlen n)" by auto
  have b: "1 \<le> bitlen n"
    using assms bitlen_eq_zero_iff [of n] bitlen_nonneg [of n] by linarith
  have "(of_int (2 ^ nat (bitlen n - 1)) :: rat) \<le> of_int n"
    using lo by (simp only: of_int_le_iff)
  then show "pow2 (bitlen n - 1) \<le> of_int n"
    using b by (simp add: pow2_def)
  have "(of_int n :: rat) < of_int (2 ^ nat (bitlen n))"
    using hi by (simp only: of_int_less_iff)
  then show "of_int n < pow2 (bitlen n)"
    using b by (simp add: pow2_def)
qed

lemma binade_bounds:
  assumes "0 < q"
  shows "pow2 (binade q) \<le> q \<and> q < pow2 (binade q + 1)"
proof -
  obtain n d where nd: "quotient_of q = (n, d)" by (cases "quotient_of q")
  have d: "0 < d" using nd by (rule quotient_of_denom_pos)
  have q: "q = of_int n / of_int d" using nd by (rule quotient_of_div)
  have n: "0 < n" using assms d q by (simp add: zero_less_divide_iff)
  let ?e0 = "bitlen n - bitlen d"
  have dr: "(0::rat) < of_int d" using d by simp
  have up: "q < pow2 (?e0 + 1)"
  proof -
    have "q < pow2 (bitlen n) / of_int d"
      unfolding q using pow2_of_bitlen(2) [OF n] dr by (simp add: divide_strict_right_mono)
    also have "\<dots> \<le> pow2 (bitlen n) / pow2 (bitlen d - 1)"
      using pow2_of_bitlen(1) [OF d] pow2_pos [of "bitlen d - 1"] pow2_pos [of "bitlen n"]
      by (simp add: frac_le)
    also have "\<dots> = pow2 (?e0 + 1)"
      by (simp add: pow2_diff [symmetric] algebra_simps)
    finally show ?thesis .
  qed
  have lo: "pow2 (?e0 - 1) \<le> q"
  proof -
    have "pow2 (?e0 - 1) = pow2 (bitlen n - 1) / pow2 (bitlen d)"
      by (simp add: pow2_diff [symmetric] algebra_simps)
    also have "\<dots> \<le> of_int n / pow2 (bitlen d)"
      using pow2_of_bitlen(1) [OF n] pow2_pos [of "bitlen d"] by (simp add: divide_right_mono)
    also have "\<dots> \<le> of_int n / of_int d"
      using pow2_of_bitlen(2) [OF d] dr n by (simp add: frac_le)
    finally show ?thesis by (simp add: q)
  qed
  have b: "binade q = (if q < pow2 ?e0 then ?e0 - 1 else ?e0)"
    unfolding binade_def Let_def nd fst_conv snd_conv by (rule refl)
  show ?thesis
  proof (cases "q < pow2 ?e0")
    case True
    then have "binade q = ?e0 - 1" using b by simp
    then show ?thesis using True lo by simp
  next
    case False
    then have "binade q = ?e0" using b by simp
    then show ?thesis using False up by simp
  qed
qed

lemma binade_unique:
  assumes "pow2 k \<le> q" and "q < pow2 (k + 1)"
  shows "binade q = k"
proof -
  have q: "0 < q" using assms(1) pow2_pos [of k] by simp
  from binade_bounds [OF q]
  have b1: "pow2 (binade q) \<le> q" and b2: "q < pow2 (binade q + 1)" by auto
  have "\<not> binade q < k"
  proof
    assume "binade q < k"
    then have "pow2 (binade q + 1) \<le> pow2 k" by (intro pow2_mono) simp
    with assms(1) b2 show False by simp
  qed
  moreover have "\<not> k < binade q"
  proof
    assume "k < binade q"
    then have "pow2 (k + 1) \<le> pow2 (binade q)" by (intro pow2_mono) simp
    with assms(2) b1 show False by simp
  qed
  ultimately show ?thesis by simp
qed

lemma fl_eval:
  assumes "pow2 k \<le> q" and "q < pow2 (k + 1)"
  shows "fl q = of_int (round_half_even (q / pow2 (k - 52))) * pow2 (k - 52)"
proof -
  have q: "0 < q" using assms(1) pow2_pos [of k] by simp
  have "\<not> q \<le> 0" using q by simp
  then show ?thesis
    unfolding fl_def Let_def binade_unique [OF assms] by (simp only: if_False)
qed



lemma floor_rat_numeral_div: "\<lfloor>(numeral a :: rat) / numeral b\<rfloor> = numeral a div numeral b"
  using floor_divide_of_int_eq [of "numeral a" "numeral b", where ?'a = rat] by simp

text \<open>The exponents that occur for \<open>attempt / 150\<close> and for the product with 100.\<close>

lemmas fl_cases = fl_eval [of "-8"] fl_eval [of "-7"] fl_eval [of "-6"] fl_eval [of "-5"]
  fl_eval [of "-4"] fl_eval [of "-3"] fl_eval [of "-2"] fl_eval [of "-1"] fl_eval [of 0]
  fl_eval [of 1] fl_eval [of 2] fl_eval [of 3] fl_eval [of 4] fl_eval [of 5] fl_eval [of 6]



lemma rhe_lower: "\<lfloor>x\<rfloor> \<le> round_half_even x"
  by (simp add: round_half_even_def Let_def)

lemma rhe_upper: "round_half_even x \<le> \<lfloor>x\<rfloor> + 1"
  by (simp add: round_half_even_def Let_def)

lemma rhe_of_int: "round_half_even (of_int n) = n"
  by (simp add: round_half_even_def Let_def)

lemma rhe_mono:
  assumes "x \<le> y"
  shows "round_half_even x \<le> round_half_even y"
proof (cases "\<lfloor>x\<rfloor> < \<lfloor>y\<rfloor>")
  case True
  have "round_half_even x \<le> \<lfloor>x\<rfloor> + 1" by (rule rhe_upper)
  also have "\<dots> \<le> \<lfloor>y\<rfloor>" using True by simp
  also have "\<dots> \<le> round_half_even y" by (rule rhe_lower)
  finally show ?thesis .
next
  case False
  moreover have "\<lfloor>x\<rfloor> \<le> \<lfloor>y\<rfloor>" using assms by (rule floor_mono)
  ultimately have eq: "\<lfloor>x\<rfloor> = \<lfloor>y\<rfloor>" by simp
  have "x - of_int \<lfloor>y\<rfloor> \<le> y - of_int \<lfloor>y\<rfloor>" using assms by simp
  then show ?thesis
    unfolding round_half_even_def Let_def eq by auto
qed

lemma fl_nonneg: "0 \<le> fl q"
proof (cases "q \<le> 0")
  case True
  then show ?thesis by (simp add: fl_def)
next
  case False
  have "0 \<le> q / pow2 (binade q - 52)"
    using False pow2_pos [of "binade q - 52"] by simp
  then have "0 \<le> \<lfloor>q / pow2 (binade q - 52)\<rfloor>" by simp
  then have "0 \<le> round_half_even (q / pow2 (binade q - 52))"
    using rhe_lower [of "q / pow2 (binade q - 52)"] by linarith
  then show ?thesis
    using False pow2_pos [of "binade q - 52"] by (simp add: fl_def Let_def)
qed

lemma pow2_52: "pow2 52 = of_int (2 ^ 52)" and pow2_53: "pow2 53 = of_int (2 ^ 53)"
  by (simp_all add: pow2_def)

lemma fl_lower:
  assumes "0 < q"
  shows "pow2 (binade q) \<le> fl q"
proof -
  let ?u = "pow2 (binade q - 52)"
  have u: "0 < ?u" by (rule pow2_pos)
  have e: "pow2 (binade q) = pow2 52 * ?u"
    using pow2_add [of 52 "binade q - 52"] by simp
  then have "pow2 52 * ?u \<le> q" using binade_bounds [OF assms] by simp
  then have "of_int (2 ^ 52) \<le> q / ?u" using u by (simp add: pow2_52 pos_le_divide_eq)
  then have "round_half_even (of_int (2 ^ 52)) \<le> round_half_even (q / ?u)" by (rule rhe_mono)
  then have "2 ^ 52 \<le> round_half_even (q / ?u)" by (simp only: rhe_of_int)
  then have "(of_int (2 ^ 52) :: rat) \<le> of_int (round_half_even (q / ?u))"
    by (simp only: of_int_le_iff)
  then have "pow2 52 * ?u \<le> of_int (round_half_even (q / ?u)) * ?u"
    using u by (simp add: pow2_52)
  then show ?thesis
    using assms by (simp add: fl_def Let_def e)
qed

lemma fl_upper:
  assumes "0 < q"
  shows "fl q \<le> pow2 (binade q + 1)"
proof -
  let ?u = "pow2 (binade q - 52)"
  have u: "0 < ?u" by (rule pow2_pos)
  have e: "pow2 (binade q + 1) = pow2 53 * ?u"
    using pow2_add [of 53 "binade q - 52"] by (simp add: algebra_simps)
  then have "q \<le> pow2 53 * ?u" using binade_bounds [OF assms] by simp
  then have "q / ?u \<le> of_int (2 ^ 53)" using u by (simp add: pow2_53 pos_divide_le_eq)
  then have "round_half_even (q / ?u) \<le> round_half_even (of_int (2 ^ 53))" by (rule rhe_mono)
  then have "round_half_even (q / ?u) \<le> 2 ^ 53" by (simp only: rhe_of_int)
  then have "(of_int (round_half_even (q / ?u)) :: rat) \<le> of_int (2 ^ 53)"
    by (simp only: of_int_le_iff)
  then have "of_int (round_half_even (q / ?u)) * ?u \<le> pow2 53 * ?u"
    using u by (simp add: pow2_53)
  then show ?thesis
    using assms by (simp add: fl_def Let_def e)
qed

lemma binade_mono:
  assumes "0 < p" and "p \<le> q"
  shows "binade p \<le> binade q"
proof (rule ccontr)
  assume "\<not> binade p \<le> binade q"
  then have "pow2 (binade q + 1) \<le> pow2 (binade p)" by (intro pow2_mono) simp
  moreover have "0 < q" using assms by simp
  ultimately show False
    using binade_bounds [OF assms(1)] binade_bounds [OF \<open>0 < q\<close>] assms(2) by simp
qed

lemma fl_mono:
  assumes "p \<le> q"
  shows "fl p \<le> fl q"
proof (cases "p \<le> 0")
  case True
  then show ?thesis using fl_nonneg [of q] by (simp add: fl_def)
next
  case False
  then have p: "0 < p" and q: "0 < q" using assms by simp_all
  show ?thesis
  proof (cases "binade p = binade q")
    case True
    let ?u = "pow2 (binade q - 52)"
    have u: "0 < ?u" by (rule pow2_pos)
    have "p / ?u \<le> q / ?u" using assms u by (simp add: divide_right_mono)
    then have "round_half_even (p / ?u) \<le> round_half_even (q / ?u)" by (rule rhe_mono)
    then have "(of_int (round_half_even (p / ?u)) :: rat) \<le> of_int (round_half_even (q / ?u))"
      by (simp only: of_int_le_iff)
    then have "of_int (round_half_even (p / ?u)) * ?u \<le> of_int (round_half_even (q / ?u)) * ?u"
      using u by simp
    then show ?thesis using p q True by (simp add: fl_def Let_def)
  next
    case False
    then have "binade p + 1 \<le> binade q" using binade_mono [OF p assms] by simp
    then have "pow2 (binade p + 1) \<le> pow2 (binade q)" by (rule pow2_mono)
    then show ?thesis using fl_upper [OF p] fl_lower [OF q] by simp
  qed
qed

lemma progress_estimate_mono:
  assumes "a \<le> b"
  shows "progress_estimate a \<le> progress_estimate b"
proof -
  have "(of_nat a :: rat) / of_nat max_attempts \<le> of_nat b / of_nat max_attempts"
    using assms by (simp add: divide_right_mono)
  then have "fl (of_nat a / of_nat max_attempts) * 100 \<le> fl (of_nat b / of_nat max_attempts) * 100"
    using fl_mono by simp
  then have "fl (fl (of_nat a / of_nat max_attempts) * 100)
             \<le> fl (fl (of_nat b / of_nat max_attempts) * 100)"
    by (rule fl_mono)
  then show ?thesis by (simp add: progress_estimate_def Let_def)
qed

lemma progress_estimate_range: "0 \<le> progress_estimate a \<and> progress_estimate a \<le> 95"
  using fl_nonneg [of "fl (rat_of_nat a / rat_of_nat max_attempts) * 100"]
  by (simp add: progress_estimate_def Let_def)

lemma shown_mono: "a \<le> b \<Longrightarrow> py_int (progress_estimate a) \<le> py_int (progress_estimate b)"
  using progress_estimate_mono [of a b] progress_estimate_range [of a] progress_estimate_range [of b]
  by (simp add: py_int_def floor_mono)

lemma shown_range: "0 \<le> py_int (progress_estimate a) \<and> py_int (progress_estimate a) \<le> 95"
  using progress_estimate_range [of a] by (simp add: py_int_def floor_le_iff)


text \<open>
  Some values. At attempt 87 the exact estimate is 58, the double-precision product is just
  below it, and the bar shows 57.
\<close>

lemma shown_at_87: "py_int (progress_estimate 87) = 57"
  by (simp add: progress_estimate_def max_attempts_def py_int_def fl_cases pow2_def round_half_even_def Let_def floor_rat_numeral_div)

lemma shown_at_1: "py_int (progress_estimate (Suc 0)) = 0"
  by (simp add: progress_estimate_def max_attempts_def py_int_def fl_cases pow2_def round_half_even_def Let_def floor_rat_numeral_div)

lemma shown_at_2: "py_int (progress_estimate (Suc (Suc 0))) = 1"
  by (simp add: progress_estimate_def max_attempts_def py_int_def fl_cases pow2_def round_half_even_def Let_def floor_rat_numeral_div)

section \<open>Unfolding a concrete run\<close>

lemmas run_defs = tab1_def tab1_images_def tab1_video_def images_submit_def video_submit_def
  image_polling_def video_polling_def image_attempt_def video_attempt_def image_completed_def
  video_completed_def emit_def emit_all_def user_images_def user_video_def service_def
  ok_json_def http_status_def status_json_def w0_def rt0_def img1_def img2_def clip_def
  subscript_def dict_get_def get_or_def slice_to_def py_str_def max_attempts_def Let_def
  progress_values_def http_timeouts_def List.map_filter_def upt_conv_Cons show_nat.simps
  st_image_def

section \<open>Facts about traces\<close>

lemma state_emit [simp]: "state (emit e w) = state w"
  by (simp add: emit_def)

lemma state_emit_all [simp]: "state (emit_all es w) = state w"
  by (simp add: emit_all_def)

lemma trace_emit [simp]: "trace (emit e w) = trace w @ [e]"
  by (simp add: emit_def)

lemma trace_emit_all [simp]: "trace (emit_all es w) = trace w @ es"
  by (simp add: emit_all_def)

lemma emit_all_emit_all [simp]: "emit_all ys (emit_all xs w) = emit_all (xs @ ys) w"
  by (simp add: emit_all_def)

lemma emit_as_emit_all: "emit e w = emit_all [e] w"
  by (simp add: emit_def emit_all_def)

lemma emit_all_Nil [simp]: "emit_all [] w = w"
  by (simp add: emit_all_def)

lemma emitted_emit_all [simp]: "emitted w (out, emit_all es w) = es"
  by (simp add: emitted_def)

section \<open>Facts about the polling loops\<close>

text \<open>
  A pending attempt adds its four events and lets the loop go on, so a run of pending
  attempts adds their events in order; the attempt that sees \<open>completed\<close> or \<open>failed\<close>
  ends the loop.
\<close>

lemma video_attempt_pending:
  assumes "pending (job_status srv a)"
  shows "video_attempt rt srv a w = (None, emit_all (pending_events (job_id (state w)) (Some 5) a) w)"
  using assms
  by (auto simp: pending_def video_attempt_def subscript_def pending_events_def shown_progress_def
        elapsed_text_def emit_as_emit_all Let_def
      split: sum.splits option.splits json.splits)

lemma image_attempt_pending:
  assumes "pending (job_status srv a)"
  shows "image_attempt rt srv a w = (None, emit_all (pending_events (job_id (state w)) None a) w)"
  using assms
  by (auto simp: pending_def image_attempt_def subscript_def pending_events_def shown_progress_def
        elapsed_text_def emit_as_emit_all Let_def
      split: sum.splits option.splits json.splits)

lemma video_loop_pending:
  assumes "list_all (\<lambda>a. pending (job_status srv a)) as"
  shows "video_poll_loop rt srv (as @ bs) w =
         video_poll_loop rt srv bs
           (emit_all (concat (map (pending_events (job_id (state w)) (Some 5)) as)) w)"
  using assms
proof (induction as arbitrary: w)
  case Nil
  then show ?case by simp
next
  case (Cons a as)
  then show ?case by (simp add: video_attempt_pending)
qed

lemma image_loop_pending:
  assumes "list_all (\<lambda>a. pending (job_status srv a)) as"
  shows "image_poll_loop rt srv (as @ bs) w =
         image_poll_loop rt srv bs
           (emit_all (concat (map (pending_events (job_id (state w)) None) as)) w)"
  using assms
proof (induction as arbitrary: w)
  case Nil
  then show ?case by simp
next
  case (Cons a as)
  then show ?case by (simp add: image_attempt_pending)
qed

lemma emitted_eq: "trace (snd r) = trace w @ es \<Longrightarrow> emitted w r = es"
  by (simp add: emitted_def)

lemma progress_values_append [simp]:
  "progress_values (xs @ ys) = progress_values xs @ progress_values ys"
  by (simp add: progress_values_def List.map_filter_def)

lemma info_texts_append [simp]: "info_texts (xs @ ys) = info_texts xs @ info_texts ys"
  by (simp add: info_texts_def List.map_filter_def)

lemma progress_values_Cons [simp]:
  "progress_values (e # es) = (case progress_of e of None \<Rightarrow> [] | Some v \<Rightarrow> [v]) @ progress_values es"
  by (simp add: progress_values_def List.map_filter_def split: option.splits)

lemma info_texts_Cons [simp]:
  "info_texts (e # es) = (case info_of e of None \<Rightarrow> [] | Some v \<Rightarrow> [v]) @ info_texts es"
  by (simp add: info_texts_def List.map_filter_def split: option.splits)

lemma progress_values_Nil [simp]: "progress_values [] = []"
  by (simp add: progress_values_def List.map_filter_def)

lemma info_texts_Nil [simp]: "info_texts [] = []"
  by (simp add: info_texts_def List.map_filter_def)

lemma polls_of_pending:
  "filter is_status_poll (concat (map (pending_events j t) as)) = map (\<lambda>a. Http (JobStatus j) t) as"
  by (induction as) (simp_all add: pending_events_def)

lemma progress_of_pending:
  "progress_values (concat (map (pending_events j t) as)) = map shown_progress as"
  by (induction as) (simp_all add: pending_events_def)

lemma infos_of_pending:
  "info_texts (concat (map (pending_events j t) as)) = map elapsed_text as"
  by (induction as) (simp_all add: pending_events_def)

lemma fetches_of_pending:
  "filter is_result_fetch (concat (map (pending_events j t) as)) = []"
  by (induction as) (simp_all add: pending_events_def)

lemma shown_progress_mono: "a \<le> b \<Longrightarrow> shown_progress a \<le> shown_progress b"
  unfolding shown_progress_def by (rule shown_mono)

lemma shown_progress_range: "0 \<le> shown_progress a \<and> shown_progress a \<le> 95"
  unfolding shown_progress_def by (rule shown_range)

lemma sorted_shown: "sorted (map shown_progress [i..<j])"
  by (simp add: sorted_map sorted_wrt_iff_nth_less shown_progress_mono)

lemma video_polling_stuck:
  assumes "list_all (\<lambda>a. pending (job_status srv a)) [0..<max_attempts]"
  shows "video_polling rt srv w =
         (Done, emit_all (Progress 0 #
                  concat (map (pending_events (job_id (state w)) (Some 5)) [0..<max_attempts])) w)"
  using video_loop_pending [OF assms, of rt "[]" "emit (Progress 0) w"]
  by (simp add: video_polling_def emit_as_emit_all)

lemma image_polling_stuck:
  assumes "list_all (\<lambda>a. pending (job_status srv a)) [0..<max_attempts]"
  shows "image_polling rt srv w =
         (Done, emit_all (Progress 0 #
                  concat (map (pending_events (job_id (state w)) None) [0..<max_attempts])) w)"
  using image_loop_pending [OF assms, of rt "[]" "emit (Progress 0) w"]
  by (simp add: image_polling_def emit_as_emit_all)

lemma stuck_pending: "list_all (\<lambda>a. pending (job_status srv_stuck a)) [0..<max_attempts]"
  by (simp add: list_all_iff srv_stuck_def service_def pending_def ok_json_def status_json_def)

lemma video_completed_trace:
  "trace (snd (video_completed srv w)) =
     trace w @ [Progress 100, Success (check_mark @ '' Analysis complete!''),
                Http (ResultFetch (job_id (state w))) (Some 5)]"
  by (simp add: video_completed_def Let_def split: sum.splits option.splits)

lemma image_completed_trace:
  "trace (snd (image_completed srv w)) =
     trace w @ [Progress 100, Success (check_mark @ '' Analysis complete!''),
                Http (ResultFetch (job_id (state w))) None]"
  by (simp add: image_completed_def Let_def split: sum.splits option.splits)

lemma video_attempt_completed:
  assumes "completed (job_status srv a)"
  shows "video_attempt rt srv a w =
         (case video_completed srv (emit (Http (JobStatus (job_id (state w))) (Some 5)) w) of
            (out, w2) \<Rightarrow> (Some out, w2))"
  using assms
  by (auto simp: completed_def video_attempt_def subscript_def Let_def
      split: sum.splits option.splits json.splits)

lemma image_attempt_completed:
  assumes "completed (job_status srv a)"
  shows "image_attempt rt srv a w =
         (case image_completed srv (emit (Http (JobStatus (job_id (state w))) None) w) of
            (out, w2) \<Rightarrow> (Some out, w2))"
  using assms
  by (auto simp: completed_def image_attempt_def subscript_def Let_def
      split: sum.splits option.splits json.splits)

lemma range_split: "k < n \<Longrightarrow> [0..<n] = [0..<k] @ k # [Suc k..<n]"
  by (metis less_imp_le_nat upt_add_eq_append upt_conv_Cons zero_le le_add_diff_inverse add_0)

lemma video_polling_completed:
  assumes "k < max_attempts"
    and "list_all (\<lambda>a. pending (job_status srv a)) [0..<k]"
    and "completed (job_status srv k)"
  shows "trace (snd (video_polling rt srv w)) =
         trace w @ Progress 0 # concat (map (pending_events (job_id (state w)) (Some 5)) [0..<k])
           @ [Http (JobStatus (job_id (state w))) (Some 5), Progress 100,
              Success (check_mark @ '' Analysis complete!''),
              Http (ResultFetch (job_id (state w))) (Some 5)]"
proof -
  let ?w1 = "emit_all (concat (map (pending_events (job_id (state w)) (Some 5)) [0..<k]))
               (emit (Progress 0) w)"
  let ?w2 = "emit (Http (JobStatus (job_id (state w))) (Some 5)) ?w1"
  have "video_polling rt srv w =
        video_poll_loop rt srv (k # [Suc k..<max_attempts]) ?w1"
    using video_loop_pending [OF assms(2), of rt "k # [Suc k..<max_attempts]" "emit (Progress 0) w"]
    by (simp add: video_polling_def range_split [OF assms(1)])
  also have "\<dots> = video_completed srv ?w2"
    by (simp add: video_attempt_completed [OF assms(3)] split: prod.splits)
  finally show ?thesis
    by (simp add: video_completed_trace)
qed

lemma image_polling_completed:
  assumes "k < max_attempts"
    and "list_all (\<lambda>a. pending (job_status srv a)) [0..<k]"
    and "completed (job_status srv k)"
  shows "trace (snd (image_polling rt srv w)) =
         trace w @ Progress 0 # concat (map (pending_events (job_id (state w)) None) [0..<k])
           @ [Http (JobStatus (job_id (state w))) None, Progress 100,
              Success (check_mark @ '' Analysis complete!''),
              Http (ResultFetch (job_id (state w))) None]"
proof -
  let ?w1 = "emit_all (concat (map (pending_events (job_id (state w)) None) [0..<k]))
               (emit (Progress 0) w)"
  let ?w2 = "emit (Http (JobStatus (job_id (state w))) None) ?w1"
  have "image_polling rt srv w =
        image_poll_loop rt srv (k # [Suc k..<max_attempts]) ?w1"
    using image_loop_pending [OF assms(2), of rt "k # [Suc k..<max_attempts]" "emit (Progress 0) w"]
    by (simp add: image_polling_def range_split [OF assms(1)])
  also have "\<dots> = image_completed srv ?w2"
    by (simp add: image_attempt_completed [OF assms(3)] split: prod.splits)
  finally show ?thesis
    by (simp add: image_completed_trace)
qed

lemma sorted_progress: "sorted (0 # map shown_progress [0..<k] @ [100])"
proof -
  have r: "0 \<le> shown_progress a \<and> shown_progress a \<le> 100" for a
    using shown_progress_range [of a] by simp
  have "\<forall>x\<in>set (map shown_progress [0..<k]). 0 \<le> x \<and> x \<le> 100"
    using r by auto
  then show ?thesis
    using sorted_shown [of 0 k] by (simp add: sorted_append del: set_map list.map)
qed

lemma shown_at_0: "py_int (progress_estimate 0) = 0"
  by (simp add: progress_estimate_def py_int_def fl_def)

lemma third_pending: "list_all (\<lambda>a. pending (job_status srv_third a)) [0..<2]"
  by (simp add: list_all_iff srv_third_def service_def pending_def ok_json_def status_json_def)

lemma third_completed: "completed (job_status srv_third 2)"
  by (simp add: srv_third_def service_def completed_def ok_json_def status_json_def)

lemma video_attempt_failed:
  assumes "failed_with msg (job_status srv a)"
  shows "video_attempt rt srv a w =
         (Some Done, emit_all [Http (JobStatus (job_id (state w))) (Some 5),
                               Error (cross_mark @ '' Analysis failed: '' @ msg)] w)"
  using assms
  by (auto simp: failed_with_def video_attempt_def subscript_def dict_get_def get_or_def py_str_def
        emit_as_emit_all Let_def
      split: sum.splits option.splits json.splits)

lemma image_attempt_failed:
  assumes "failed_with msg (job_status srv a)"
  shows "image_attempt rt srv a w =
         (Some Done, emit_all [Http (JobStatus (job_id (state w))) None,
                               Error (cross_mark @ '' Analysis failed: '' @ msg)] w)"
  using assms
  by (auto simp: failed_with_def image_attempt_def subscript_def dict_get_def get_or_def py_str_def
        emit_as_emit_all Let_def
      split: sum.splits option.splits json.splits)

lemma range_first: "[0..<max_attempts] = 0 # [Suc 0..<max_attempts]"
  by (simp add: max_attempts_def upt_conv_Cons)

lemma corrupt_failed: "failed_with ''corrupt file'' (job_status srv_corrupt 0)"
  by (simp add: srv_corrupt_def service_def failed_with_def ok_json_def)

section \<open>Facts about the severity test\<close>

text \<open>\<open>str_in\<close> is the substring relation, and on objects a comprehension is a filter.\<close>

lemma starts_with_iff: "starts_with p s \<longleftrightarrow> (\<exists>b. s = p @ b)"
  by (induction p s rule: starts_with.induct) auto

lemma str_in_iff: "str_in p s \<longleftrightarrow> (\<exists>a b. s = a @ p @ b)"
proof (induction s)
  case Nil
  then show ?case by simp
next
  case (Cons c cs)
  show ?case
  proof
    assume "str_in p (c # cs)"
    then consider "starts_with p (c # cs)" | "str_in p cs" by auto
    then show "\<exists>a b. c # cs = a @ p @ b"
    proof cases
      case 1
      then obtain b where "c # cs = p @ b" by (auto simp: starts_with_iff)
      then have "c # cs = [] @ p @ b" by simp
      then show ?thesis by blast
    next
      case 2
      then obtain a b where "cs = a @ p @ b" using Cons.IH by auto
      then have "c # cs = (c # a) @ p @ b" by simp
      then show ?thesis by blast
    qed
  next
    assume "\<exists>a b. c # cs = a @ p @ b"
    then obtain a b where ab: "c # cs = a @ p @ b" by auto
    show "str_in p (c # cs)"
    proof (cases a)
      case Nil
      then have "starts_with p (c # cs)" using ab by (auto simp: starts_with_iff)
      then show ?thesis by simp
    next
      case (Cons x xs)
      then have "cs = xs @ p @ b" using ab by simp
      then have "str_in p cs" using Cons.IH by auto
      then show ?thesis by simp
    qed
  qed
qed

lemma lower_high: "lower ''high'' = ''high''"
  by code_simp

lemma lower_hc: "lower ''HIGH confidence'' = ''high confidence''"
  by code_simp

lemma lower_mixed: "lower ''High, was Low'' = ''high, was low''"
  by code_simp

lemma select_findings_objs:
  assumes "list_all is_obj fs"
  shows "select_findings rt kw fs = Inr (filter (\<lambda>f. str_in kw (severity_text rt f)) fs)"
  using assms
proof (induction fs)
  case Nil
  then show ?case by simp
next
  case (Cons f fs)
  from Cons.prems obtain d where d: "f = JObj d" by (cases f) auto
  have "severity_has rt kw f = Inr (str_in kw (severity_text rt f))"
    by (simp add: d severity_has_def dict_get_def severity_text_def)
  then show ?case using Cons by simp
qed

section \<open>Facts about the results tab\<close>

lemma finding_ok_obj: "finding_ok f \<Longrightarrow> is_obj f"
  by (cases f) (simp_all add: finding_ok_def)

lemma findings_ok_objs: "list_all finding_ok fs \<Longrightarrow> list_all is_obj fs"
  by (induction fs) (simp_all add: finding_ok_obj)

lemma timeline_entry_ok:
  assumes "finding_ok f"
  shows "\<exists>entry. timeline_entry rt f = Inr entry"
proof -
  from assms obtain d where d: "f = JObj d" by (cases f) (auto simp: finding_ok_def)
  from assms d obtain l where l: "get_or d ''location'' (JObj []) = JObj l"
    by (cases "get_or d ''location'' (JObj [])") (auto simp: finding_ok_def)
  show ?thesis
    by (simp add: d l timeline_entry_def dict_get_def Let_def)
qed

lemma timeline_data_ok:
  assumes "list_all finding_ok fs"
  shows "\<exists>entries. timeline_data rt fs = Inr entries"
  using assms
proof (induction fs)
  case Nil
  then show ?case by simp
next
  case (Cons f fs)
  then obtain entry entries
    where "timeline_entry rt f = Inr entry" and "timeline_data rt fs = Inr entries"
    using timeline_entry_ok [of f rt] by auto
  then show ?case by simp
qed

lemma display_each_unbound:
  "fs \<noteq> [] \<Longrightarrow> display_each [] rt sev fs w = (Raised (NameError ''display_finding''), w)"
  by (cases fs) (simp_all add: call_display_finding_def)

lemma display_group_unbound:
  "display_group [] rt flt label heading sev grp w =
     (if List.member flt label \<and> grp \<noteq> []
      then (Raised (NameError ''display_finding''), emit_all [Subheader heading] w)
      else (Done, w))"
  by (simp add: display_group_def display_each_unbound emit_as_emit_all)

lemma findings_section_unbound:
  assumes "list_all finding_ok fs" and "bucket_shown rt (severity_filter usr) fs"
  shows "\<exists>es. findings_section [] rt usr srv fs w = (Raised (NameError ''display_finding''), emit_all es w)
              \<and> filter is_card es = []"
proof -
  obtain entries where t: "timeline_data rt fs = Inr entries"
    using timeline_data_ok [OF assms(1)] by auto
  note objs = findings_ok_objs [OF assms(1)]
  show ?thesis
    using assms(2)
    by (auto simp: findings_section_def t severity_counts_def high_findings_def medium_findings_def
          low_findings_def select_findings_objs [OF objs] display_group_unbound bucket_shown_def
          emit_as_emit_all Let_def)
qed

lemma st_metric_ok:
  assumes "metric_ok v"
  shows "st_metric l v w = (Done, emit_all [Metric l v] w)"
  using assms by (cases v) (simp_all add: st_metric_def emit_as_emit_all)

lemma media_metrics_ok:
  assumes "list_all metric_ok (map snd m)"
  shows "media_metrics m w =
         (Done, emit_all (map (\<lambda>kv. Metric (title (replace ''_'' '' '' (fst kv))) (snd kv)) m) w)"
  using assms
proof (induction m arbitrary: w)
  case Nil
  then show ?case by simp
next
  case (Cons kv m)
  then show ?case by (simp add: st_metric_ok)
qed

lemma media_information_ok:
  assumes "get_or d ''media_info'' (JObj []) = JObj m" and "list_all metric_ok (map snd m)"
  shows "media_information (JObj d) w =
         (Done, emit_all (map (\<lambda>kv. Metric (title (replace ''_'' '' '' (fst kv))) (snd kv)) m) w)"
  by (simp add: media_information_def dict_get_def py_items_def assms(1) media_metrics_ok [OF assms(2)])

lemma no_card_in_metrics: "filter is_card (map (\<lambda>kv. Metric (f kv) (g kv)) m) = []"
  by (induction m) simp_all

lemma tab2_unbound:
  assumes "result_ok (results (state w))"
    and "findings_of (results (state w)) \<noteq> []"
    and "bucket_shown rt (severity_filter usr) (findings_of (results (state w)))"
  shows "\<exists>es. tab2 [] rt usr srv w = (Raised (NameError ''display_finding''), emit_all es w)
              \<and> filter is_card es = []"
proof -
  from assms(1) obtain d where d: "results (state w) = JObj d"
    by (cases "results (state w)") (auto simp: result_ok_def)
  from assms(1) d obtain m where m: "get_or d ''media_info'' (JObj []) = JObj m"
    and mo: "list_all metric_ok (map snd m)"
    by (cases "get_or d ''media_info'' (JObj [])") (auto simp: result_ok_def media_info_ok_def)
  from assms(1) d obtain fs where fs: "get_or d ''findings'' (JList []) = JList fs"
    and ok: "list_all finding_ok fs"
    by (cases "get_or d ''findings'' (JList [])") (auto simp: result_ok_def)
  have fo: "findings_of (results (state w)) = fs"
    by (simp add: findings_of_def d fs)
  have ne: "fs \<noteq> []" using assms(2) fo by simp
  have dne: "d \<noteq> []"
  proof
    assume "d = []"
    then have "get_or d ''findings'' (JList []) = JList []" by (simp add: get_or_def)
    with fs ne show False by simp
  qed
  let ?ms = "map (\<lambda>kv. Metric (title (replace ''_'' '' '' (fst kv))) (snd kv)) m"
  have shown: "bucket_shown rt (severity_filter usr) fs" using assms(3) fo by simp
  obtain es where es: "findings_section [] rt usr srv fs (emit_all ?ms w) =
                         (Raised (NameError ''display_finding''), emit_all es (emit_all ?ms w))"
    and nc: "filter is_card es = []"
    using findings_section_unbound [OF ok shown, of srv "emit_all ?ms w"] by auto
  have "tab2 [] rt usr srv w = (Raised (NameError ''display_finding''), emit_all (?ms @ es) w)"
    by (simp add: tab2_def d truthy_def dne media_information_ok [OF m mo] dict_get_def fs ne
          py_iter_def es)
  moreover have "filter is_card (?ms @ es) = []"
    by (simp add: nc no_card_in_metrics)
  ultimately show ?thesis by blast
qed

lemma sidebar_events:
  "\<exists>ss. sidebar srv w = emit_all ss w \<and> filter is_card ss = []"
proof (cases "health srv")
  case (Inl e)
  then have "sidebar srv w = emit_all [Http HealthCheck (Some 5), Error (cross_mark @ '' API Offline'')] w"
    by (simp add: sidebar_def emit_as_emit_all Let_def)
  then show ?thesis by fastforce
next
  case (Inr r)
  then have "sidebar srv w =
             emit_all [Http HealthCheck (Some 5),
                       (if status_code r = 200 then Success (check_mark @ '' API Online'')
                        else Error (cross_mark @ '' API Error''))] w"
    by (simp add: sidebar_def emit_as_emit_all Let_def)
  then show ?thesis by fastforce
qed

lemma tab1_idle:
  assumes "uploaded_file usr = None" and "uploaded_files usr = []"
  shows "tab1 rt usr srv w = (Done, w)"
  using assms by (cases "media_type usr") (simp_all add: tab1_def tab1_video_def tab1_images_def)

lemma flagged_ok: "result_ok (results (state (session_with result_flagged)))"
  by (simp add: session_with_def result_flagged_def result_ok_def media_info_ok_def get_or_def
        finding_ok_def finding_hc_def)

lemma flagged_findings: "findings_of (results (state (session_with result_flagged))) = [finding_hc]"
  by (simp add: session_with_def result_flagged_def findings_of_def get_or_def)

lemma flagged_shown:
  "bucket_shown rt0 (severity_filter user_idle) (findings_of (results (state (session_with result_flagged))))"
  by (simp add: flagged_findings bucket_shown_def user_idle_def severity_text_def finding_hc_def
        get_or_def py_str_def lower_hc)






section \<open>Properties\<close>

subsection \<open>Timeouts of the HTTP calls\<close>

text \<open>
  Claim C2. Every HTTP call carries the timeout of its kind; in particular every status
  poll and every result fetch of both polling loops is bounded by 5 seconds.
  The image-sequence loop (lines 282-284 and 293-295) passes no \<open>timeout\<close> at all, although
  its comment says "same as video" and the video loop passes \<open>timeout=5\<close>. The run below
  uploads two images to a service that completes the job at the first poll: the submission
  has its 60 seconds, the status poll and the result fetch have none.
\<close>

theorem image_polls_carry_no_timeout:
  "http_timeouts (trace (snd (tab1 rt0 (user_images [img1, img2]) srv_quick w0))) =
     [(SubmitImages [png_black, png_white] ''ordered'' ''standard'', Some 60),
      (JobStatus (JStr ''job-1''), None),
      (ResultFetch (JStr ''job-1''), None)]"
  by (simp add: run_defs srv_quick_def)

subsection \<open>A status poll that fails in transport\<close>

text \<open>
  Claim C3. A status poll that yields a transport failure aborts the polling loop at that
  attempt, with a polling failure shown and no further progress, in both loops.
  The video loop does so (lines 221-223); the image-sequence loop has no \<open>else\<close> for a
  status other than 200 and goes on to the next attempt. In the run below the first poll is
  answered with HTTP 500: the loop polls three more times, shows no error and moves the
  progress bar from 0 to 1 and then to 100.
\<close>

theorem image_loop_ignores_failed_poll:
  "length (filter is_status_poll (trace (snd (tab1 rt0 (user_images [img1, img2]) srv_hiccup w0)))) = 4
   \<and> filter is_error (trace (snd (tab1 rt0 (user_images [img1, img2]) srv_hiccup w0))) = []
   \<and> progress_values (trace (snd (tab1 rt0 (user_images [img1, img2]) srv_hiccup w0))) = [0, 0, 1, 100]"
  by (simp add: run_defs srv_hiccup_def shown_at_1 shown_at_2)

subsection \<open>A result fetch that fails\<close>

text \<open>
  Claim C4. Every transport- or service-level error, the result fetch after \<open>completed\<close>
  included, aborts only the current operation, keeps the session state and is shown to
  the user. A result fetch answered with a status other than 200 just leaves the loop
  (lines 204-208): in the run below the page shows 100 percent and "Analysis complete!",
  no error, and the session holds no results.
\<close>

theorem failed_result_fetch_is_silent:
  "fst (tab1 rt0 user_video srv_no_result w0) = Done
   \<and> filter is_error (trace (snd (tab1 rt0 user_video srv_no_result w0))) = []
   \<and> progress_values (trace (snd (tab1 rt0 user_video srv_no_result w0))) = [0, 100]
   \<and> last (trace (snd (tab1 rt0 user_video srv_no_result w0))) = Http (ResultFetch (JStr ''job-1'')) (Some 5)
   \<and> results (state (snd (tab1 rt0 user_video srv_no_result w0))) = JNull"
  by (simp add: run_defs srv_no_result_def)

subsection \<open>A job that never finishes\<close>

text \<open>
  Claim C5. When every one of the 150 polls is answered with \<open>queued\<close> or \<open>processing\<close>,
  the loop ends: the run returns normally after exactly \<open>max_attempts\<close> status polls and no
  result fetch, and no progress value it showed is 100 (none exceeds 95). This holds for
  the video loop and for the image-sequence loop. Both loops are recursions over the
  finite range of attempts, so they return on every polling sequence.
\<close>

theorem polling_budget_exhausted:
  assumes "list_all (\<lambda>a. pending (job_status srv a)) [0..<max_attempts]"
  shows "fst (video_polling rt srv w) = Done
       \<and> length (filter is_status_poll (emitted w (video_polling rt srv w))) = max_attempts
       \<and> filter is_result_fetch (emitted w (video_polling rt srv w)) = []
       \<and> list_all (\<lambda>v. v \<le> 95) (progress_values (emitted w (video_polling rt srv w)))
       \<and> 100 \<notin> set (progress_values (emitted w (video_polling rt srv w)))
       \<and> fst (image_polling rt srv w) = Done
       \<and> length (filter is_status_poll (emitted w (image_polling rt srv w))) = max_attempts
       \<and> filter is_result_fetch (emitted w (image_polling rt srv w)) = []
       \<and> list_all (\<lambda>v. v \<le> 95) (progress_values (emitted w (image_polling rt srv w)))
       \<and> 100 \<notin> set (progress_values (emitted w (image_polling rt srv w)))"
proof -
  have range: "list_all (\<lambda>v. v \<le> 95) (map shown_progress as)" for as
    by (simp add: list_all_iff shown_progress_range)
  have ne: "shown_progress a \<noteq> 100" for a
    using shown_progress_range [of a] by simp
  have no100: "100 \<notin> set (map shown_progress as)" for as
    using ne by (induction as) auto
  show ?thesis
    unfolding video_polling_stuck [OF assms] image_polling_stuck [OF assms]
    by (simp add: polls_of_pending progress_of_pending fetches_of_pending range no100
          del: set_map list.map set_upt)
qed

text \<open>A service that always answers \<open>processing\<close> is such a polling sequence.\<close>

theorem polling_budget_exhausted_witness:
  "list_all (\<lambda>a. pending (job_status srv_stuck a)) [0..<max_attempts]
   \<and> fst (video_polling rt0 srv_stuck w0) = Done
   \<and> length (filter is_status_poll (emitted w0 (video_polling rt0 srv_stuck w0))) = max_attempts
   \<and> 100 \<notin> set (progress_values (emitted w0 (video_polling rt0 srv_stuck w0)))
   \<and> fst (image_polling rt0 srv_stuck w0) = Done
   \<and> length (filter is_status_poll (emitted w0 (image_polling rt0 srv_stuck w0))) = max_attempts
   \<and> 100 \<notin> set (progress_values (emitted w0 (image_polling rt0 srv_stuck w0)))"
  using polling_budget_exhausted [OF stuck_pending, of rt0 w0] stuck_pending by simp

subsection \<open>Progress up to completion\<close>

text \<open>
  Claim C6, as amended. When the polls of attempts \<open>0, \<dots>, k - 1\<close> are answered with
  \<open>queued\<close> or \<open>processing\<close> and the poll of attempt \<open>k < 150\<close> with \<open>completed\<close>, the
  progress values shown are, in this order, 0 (the fresh bar), \<open>shown_progress a\<close> for each
  pending attempt \<open>a\<close>, which is \<open>int(min(a / 150 * 100, 95))\<close> in double precision, and
  100. They never decrease, every value before the last is at most 95, so 100 is shown
  only once \<open>completed\<close> has been observed, and the text under the bar at attempt \<open>a\<close> gives
  \<open>a * 2\<close> seconds. This holds for both loops.
\<close>

theorem progress_until_completed:
  assumes "k < max_attempts"
    and "list_all (\<lambda>a. pending (job_status srv a)) [0..<k]"
    and "completed (job_status srv k)"
  shows "progress_values (emitted w (video_polling rt srv w)) = 0 # map shown_progress [0..<k] @ [100]
       \<and> sorted (progress_values (emitted w (video_polling rt srv w)))
       \<and> list_all (\<lambda>v. v \<le> 95) (butlast (progress_values (emitted w (video_polling rt srv w))))
       \<and> info_texts (emitted w (video_polling rt srv w)) = map elapsed_text [0..<k]
       \<and> progress_values (emitted w (image_polling rt srv w)) = 0 # map shown_progress [0..<k] @ [100]
       \<and> sorted (progress_values (emitted w (image_polling rt srv w)))
       \<and> list_all (\<lambda>v. v \<le> 95) (butlast (progress_values (emitted w (image_polling rt srv w))))
       \<and> info_texts (emitted w (image_polling rt srv w)) = map elapsed_text [0..<k]"
proof -
  have range: "list_all (\<lambda>v. v \<le> 95) (map shown_progress as)" for as
    by (simp add: list_all_iff shown_progress_range)
  have bl: "butlast (0 # map shown_progress [0..<k] @ [100]) = 0 # map shown_progress [0..<k]"
    by (simp add: butlast_append)
  have v: "progress_values (emitted w (video_polling rt srv w)) = 0 # map shown_progress [0..<k] @ [100]"
    and vi: "info_texts (emitted w (video_polling rt srv w)) = map elapsed_text [0..<k]"
    unfolding emitted_eq [OF video_polling_completed [OF assms]]
    by (simp_all add: progress_of_pending infos_of_pending)
  have i: "progress_values (emitted w (image_polling rt srv w)) = 0 # map shown_progress [0..<k] @ [100]"
    and ii: "info_texts (emitted w (image_polling rt srv w)) = map elapsed_text [0..<k]"
    unfolding emitted_eq [OF image_polling_completed [OF assms]]
    by (simp_all add: progress_of_pending infos_of_pending)
  show ?thesis
    unfolding v vi i ii bl using sorted_progress [of k] range [of "[0..<k]"] by simp
qed

text \<open>Two polls answered \<open>processing\<close>, the third \<open>completed\<close>: the theorem at \<open>k = 2\<close>.\<close>

theorem progress_until_completed_witness:
  "2 < max_attempts
   \<and> list_all (\<lambda>a. pending (job_status srv_third a)) [0..<2]
   \<and> completed (job_status srv_third 2)
   \<and> progress_values (emitted w0 (video_polling rt0 srv_third w0)) = 0 # map shown_progress [0..<2] @ [100]
   \<and> sorted (progress_values (emitted w0 (video_polling rt0 srv_third w0)))
   \<and> info_texts (emitted w0 (video_polling rt0 srv_third w0)) = map elapsed_text [0..<2]
   \<and> progress_values (emitted w0 (image_polling rt0 srv_third w0)) = 0 # map shown_progress [0..<2] @ [100]
   \<and> sorted (progress_values (emitted w0 (image_polling rt0 srv_third w0)))
   \<and> info_texts (emitted w0 (image_polling rt0 srv_third w0)) = map elapsed_text [0..<2]"
proof -
  have k: "2 < max_attempts" by (simp add: max_attempts_def)
  show ?thesis
    using progress_until_completed [OF k third_pending third_completed, of w0 rt0]
      k third_pending third_completed
    by blast
qed

text \<open>
  Claim C6 as stated has each pending attempt display \<open>min(attempt / 150 * 100, 95)\<close>
  itself. The bar gets \<open>int(progress)\<close> (lines 217 and 309): in the run with two pending
  attempts the values shown are 0, 0, 0, 100, and at attempt 1 the formula gives 2/3, not 0.
\<close>

theorem shown_progress_is_truncated:
  "map rat_of_int (progress_values (emitted w0 (video_polling rt0 srv_third w0)))
     \<noteq> [0, min (0 / 150 * 100) 95, min (1 / 150 * 100) 95, 100]
   \<and> progress_values (emitted w0 (video_polling rt0 srv_third w0)) = [0, 0, 0, 100]"
  by (simp add: emitted_def run_defs srv_third_def shown_at_0 shown_at_1)

subsection \<open>A job reported as failed\<close>

text \<open>
  Claim C10, as amended. When the first status poll is answered with status \<open>failed\<close> and
  an error text, the loop stops after that one poll: the run adds to the trace the fresh
  progress bar, one status poll and one error message, makes no result fetch, and the
  message is the script's prefix followed by the server's text, for \<open>corrupt file\<close> the
  message \<open>Analysis failed: corrupt file\<close> after the cross mark. This holds for both loops.
\<close>

theorem failed_first_poll:
  assumes "failed_with msg (job_status srv 0)"
  shows "video_polling rt srv w =
           (Done, emit_all [Progress 0, Http (JobStatus (job_id (state w))) (Some 5),
                            Error (cross_mark @ '' Analysis failed: '' @ msg)] w)
       \<and> image_polling rt srv w =
           (Done, emit_all [Progress 0, Http (JobStatus (job_id (state w))) None,
                            Error (cross_mark @ '' Analysis failed: '' @ msg)] w)"
  by (simp add: video_polling_def image_polling_def range_first emit_as_emit_all
        video_attempt_failed [OF assms] image_attempt_failed [OF assms])

text \<open>The service that reports \<open>corrupt file\<close> at the first poll.\<close>

theorem failed_first_poll_witness:
  "failed_with ''corrupt file'' (job_status srv_corrupt 0)
   \<and> video_polling rt0 srv_corrupt w0 =
       (Done, emit_all [Progress 0, Http (JobStatus JNull) (Some 5),
                        Error (cross_mark @ '' Analysis failed: corrupt file'')] w0)
   \<and> image_polling rt0 srv_corrupt w0 =
       (Done, emit_all [Progress 0, Http (JobStatus JNull) None,
                        Error (cross_mark @ '' Analysis failed: corrupt file'')] w0)"
  using failed_first_poll [OF corrupt_failed, of rt0 w0] corrupt_failed
  by (simp add: w0_def)

text \<open>
  Claim C10 as stated has the user-visible failure message equal to the server's text
  \<open>corrupt file\<close>. The only error the run shows is the f-string of lines 211 and 304,
  which puts \<open>Analysis failed:\<close> and a cross mark in front of it.
\<close>

theorem failure_message_has_prefix:
  "filter is_error (trace (snd (video_polling rt0 srv_corrupt w0)))
     = [Error (cross_mark @ '' Analysis failed: corrupt file'')]
   \<and> Error ''corrupt file'' \<notin> set (trace (snd (video_polling rt0 srv_corrupt w0)))"
  by (simp add: run_defs srv_corrupt_def cross_mark_def)

subsection \<open>Fewer than two images\<close>

text \<open>
  Claim C7 as stated has every image-sequence submission with fewer than two payloads
  yield the warning. The thumbnails are drawn (lines 243-246) before the number of files
  is tested (line 251), outside any \<open>try\<close>: with one uploaded file that is not a
  decodable image, \<open>st.image\<close> raises, the run of the script ends there and the warning is
  never shown.
\<close>

theorem undecodable_upload_no_warning:
  "media_type (user_images [img_broken]) = ImageSequence
   \<and> length (uploaded_files (user_images [img_broken])) = 1
   \<and> fst (tab1 rt0 (user_images [img_broken]) srv_quick w0) = Raised UnidentifiedImageError
   \<and> filter is_warning (trace (snd (tab1 rt0 (user_images [img_broken]) srv_quick w0))) = []"
  by (simp add: tab1_def tab1_images_def st_image_def user_images_def img_broken_def emit_def
        w0_def Let_def)

text \<open>
  Claim C7, as amended. With Image Sequence selected and fewer than two files uploaded,
  tab 1 makes no HTTP call and leaves the session state as it was; when a file is
  uploaded and decodes as an image, tab 1 returns normally and shows, after the count of
  uploaded images and the thumbnail, the warning to upload at least two images, and
  nothing else.
\<close>

theorem too_few_images:
  assumes "media_type usr = ImageSequence" and "length (uploaded_files usr) < 2"
  shows "filter is_http (emitted w (tab1 rt usr srv w)) = []
       \<and> state (snd (tab1 rt usr srv w)) = state w
       \<and> (uploaded_files usr \<noteq> [] \<and> list_all decodes_as_image (uploaded_files usr) \<longrightarrow>
            fst (tab1 rt usr srv w) = Done
            \<and> emitted w (tab1 rt usr srv w) =
                [Info (camera_flash @ '' 1 images uploaded''),
                 Thumbnail (file_name (hd (uploaded_files usr))),
                 Warning (warning_sign @ '' Please upload at least 2 images for sequence analysis'')])"
proof (cases "uploaded_files usr")
  case Nil
  then show ?thesis
    using assms(1) by (simp add: tab1_def tab1_images_def emitted_def)
next
  case (Cons f fs)
  then have fs: "fs = []" using assms(2) by simp
  have one: "show_nat (Suc 0) = ''1''"
    by code_simp
  show ?thesis
  proof (cases "decodes_as_image f")
    case True
    then show ?thesis
      using assms(1) Cons fs
      by (simp add: tab1_def tab1_images_def st_image_def emitted_def emit_def one Let_def)
  next
    case False
    then show ?thesis
      using assms(1) Cons fs
      by (simp add: tab1_def tab1_images_def st_image_def emitted_def emit_def Let_def)
  qed
qed

text \<open>One uploaded image, a 1x1 PNG file.\<close>

theorem too_few_images_witness:
  "media_type (user_images [img1]) = ImageSequence
   \<and> length (uploaded_files (user_images [img1])) < 2
   \<and> uploaded_files (user_images [img1]) \<noteq> []
   \<and> list_all decodes_as_image (uploaded_files (user_images [img1]))
   \<and> fst (tab1 rt0 (user_images [img1]) srv_quick w0) = Done
   \<and> state (snd (tab1 rt0 (user_images [img1]) srv_quick w0)) = state w0
   \<and> filter is_http (emitted w0 (tab1 rt0 (user_images [img1]) srv_quick w0)) = []
   \<and> emitted w0 (tab1 rt0 (user_images [img1]) srv_quick w0) =
       [Info (camera_flash @ '' 1 images uploaded''),
        Thumbnail ''a.png'',
        Warning (warning_sign @ '' Please upload at least 2 images for sequence analysis'')]"
proof -
  have m: "media_type (user_images [img1]) = ImageSequence"
    and l: "length (uploaded_files (user_images [img1])) < 2"
    and n: "uploaded_files (user_images [img1]) \<noteq> []"
    and d: "list_all decodes_as_image (uploaded_files (user_images [img1]))"
    and h: "file_name (hd (uploaded_files (user_images [img1]))) = ''a.png''"
    by (simp_all add: user_images_def img1_def)
  show ?thesis
    using too_few_images [OF m l, of w0 rt0 srv_quick] m l n d
    unfolding h by blast
qed

subsection \<open>Severity buckets\<close>

text \<open>
  Claim C8. For a findings sequence of JSON objects, each of \<open>high_findings\<close>,
  \<open>medium_findings\<close> and \<open>low_findings\<close> is the sequence of the findings, in their order,
  whose lowercased string form of the severity field contains the keyword as a substring,
  and the three counts are the lengths of these sequences; the three tests are
  independent. A finding with severity \<open>HIGH confidence\<close> is in the High bucket only, and
  one with severity \<open>High, was Low\<close> is in both High and Low.
\<close>

theorem severity_buckets:
  assumes "list_all is_obj fs"
  shows "high_findings rt fs = Inr (filter (\<lambda>f. \<exists>a b. severity_text rt f = a @ ''high'' @ b) fs)
       \<and> medium_findings rt fs = Inr (filter (\<lambda>f. \<exists>a b. severity_text rt f = a @ ''medium'' @ b) fs)
       \<and> low_findings rt fs = Inr (filter (\<lambda>f. \<exists>a b. severity_text rt f = a @ ''low'' @ b) fs)
       \<and> severity_counts rt fs =
           Inr \<lparr>count_high = length (filter (\<lambda>f. \<exists>a b. severity_text rt f = a @ ''high'' @ b) fs),
                count_medium = length (filter (\<lambda>f. \<exists>a b. severity_text rt f = a @ ''medium'' @ b) fs),
                count_low = length (filter (\<lambda>f. \<exists>a b. severity_text rt f = a @ ''low'' @ b) fs)\<rparr>
       \<and> high_findings rt [finding_hc] = Inr [finding_hc]
       \<and> medium_findings rt [finding_hc] = Inr []
       \<and> low_findings rt [finding_hc] = Inr []
       \<and> high_findings rt [finding_mixed] = Inr [finding_mixed]
       \<and> medium_findings rt [finding_mixed] = Inr []
       \<and> low_findings rt [finding_mixed] = Inr [finding_mixed]"
proof -
  have general:
    "high_findings rt fs = Inr (filter (\<lambda>f. \<exists>a b. severity_text rt f = a @ ''high'' @ b) fs)
     \<and> medium_findings rt fs = Inr (filter (\<lambda>f. \<exists>a b. severity_text rt f = a @ ''medium'' @ b) fs)
     \<and> low_findings rt fs = Inr (filter (\<lambda>f. \<exists>a b. severity_text rt f = a @ ''low'' @ b) fs)
     \<and> severity_counts rt fs =
         Inr \<lparr>count_high = length (filter (\<lambda>f. \<exists>a b. severity_text rt f = a @ ''high'' @ b) fs),
              count_medium = length (filter (\<lambda>f. \<exists>a b. severity_text rt f = a @ ''medium'' @ b) fs),
              count_low = length (filter (\<lambda>f. \<exists>a b. severity_text rt f = a @ ''low'' @ b) fs)\<rparr>"
    by (simp add: high_findings_def medium_findings_def low_findings_def severity_counts_def
          select_findings_objs [OF assms] str_in_iff)
  have examples:
    "high_findings rt [finding_hc] = Inr [finding_hc]
     \<and> medium_findings rt [finding_hc] = Inr []
     \<and> low_findings rt [finding_hc] = Inr []
     \<and> high_findings rt [finding_mixed] = Inr [finding_mixed]
     \<and> medium_findings rt [finding_mixed] = Inr []
     \<and> low_findings rt [finding_mixed] = Inr [finding_mixed]"
    by (simp add: high_findings_def medium_findings_def low_findings_def severity_has_def
          dict_get_def get_or_def py_str_def finding_hc_def finding_mixed_def lower_hc lower_mixed)
  from general examples show ?thesis by blast
qed

text \<open>The two example findings as one sequence.\<close>

theorem severity_buckets_witness:
  "list_all is_obj [finding_hc, finding_mixed]
   \<and> high_findings rt0 [finding_hc, finding_mixed] = Inr [finding_hc, finding_mixed]
   \<and> medium_findings rt0 [finding_hc, finding_mixed] = Inr []
   \<and> low_findings rt0 [finding_hc, finding_mixed] = Inr [finding_mixed]
   \<and> severity_counts rt0 [finding_hc, finding_mixed] = Inr \<lparr>count_high = 2, count_medium = 0, count_low = 1\<rparr>"
proof -
  have o: "list_all is_obj [finding_hc, finding_mixed]"
    by (simp add: finding_hc_def finding_mixed_def)
  show ?thesis
    using severity_buckets [OF o, of rt0, unfolded str_in_iff [symmetric]] o
    by (simp add: severity_text_def get_or_def py_str_def finding_hc_def
          finding_mixed_def lower_hc lower_mixed)
qed

subsection \<open>Displaying the findings\<close>

text \<open>
  Claim C1 as stated has the results tab raise \<open>NameError\<close> for every fetched result with
  a non-empty findings sequence and a selected bucket that holds a finding. The
  media-information loop and the timeline loop run before the first call of
  \<open>display_finding\<close> and can raise first: for a result whose only finding has severity
  \<open>high\<close> and \<open>"location": null\<close>, all buckets selected, \<open>location.get('start', 0)\<close>
  (line 364) raises \<open>AttributeError\<close>.
\<close>

theorem timeline_raises_before_display:
  "findings_of (results (state (session_with result_high_null_location))) \<noteq> []
   \<and> bucket_shown rt0 (severity_filter user_idle)
        (findings_of (results (state (session_with result_high_null_location))))
   \<and> fst (tab2 [] rt0 user_idle srv_quick (session_with result_high_null_location))
       = Raised AttributeError"
  by (simp add: tab2_def session_with_def result_high_null_location_def findings_of_def
        bucket_shown_def user_idle_def severity_text_def truthy_def media_information_def
        dict_get_def get_or_def py_items_def py_iter_def py_str_def lower_high
        findings_section_def timeline_entry_def emit_all_def Let_def)

text \<open>
  Claim C1, as amended. When the session holds a result of the shape the script relies on
  (an object; \<open>media_info\<close>, when present, an object whose values are neither lists nor
  objects; \<open>findings\<close>, when present, a list of objects whose \<open>location\<close>, when present,
  is an object) whose findings sequence is not empty, and the severity filter includes a
  bucket that holds a finding, the results tab raises \<open>NameError\<close> for \<open>display_finding\<close>
  and renders no finding card: the calls of lines 411, 417 and 423 run at module level
  before the \<open>def\<close> of line 472 has been executed. The whole run of the script ends with
  that exception when the configuration is readable and tab 1 has nothing to do.
\<close>

theorem display_raises_NameError:
  assumes "result_ok (results (state w))"
    and "findings_of (results (state w)) \<noteq> []"
    and "bucket_shown rt (severity_filter usr) (findings_of (results (state w)))"
  shows "fst (tab2 [] rt usr srv w) = Raised (NameError ''display_finding'')
       \<and> filter is_card (emitted w (tab2 [] rt usr srv w)) = []
       \<and> (secrets_configured srv \<and> uploaded_file usr = None \<and> uploaded_files usr = [] \<longrightarrow>
            fst (app rt usr srv w) = Raised (NameError ''display_finding'')
            \<and> filter is_card (emitted w (app rt usr srv w)) = [])"
proof -
  obtain es where es: "tab2 [] rt usr srv w = (Raised (NameError ''display_finding''), emit_all es w)"
    and nc: "filter is_card es = []"
    using tab2_unbound [OF assms] by blast
  have one: "fst (tab2 [] rt usr srv w) = Raised (NameError ''display_finding'')
             \<and> filter is_card (emitted w (tab2 [] rt usr srv w)) = []"
    by (simp add: es nc)
  have two: "fst (app rt usr srv w) = Raised (NameError ''display_finding'')
             \<and> filter is_card (emitted w (app rt usr srv w)) = []"
    if idle: "secrets_configured srv \<and> uploaded_file usr = None \<and> uploaded_files usr = []"
  proof -
    obtain ss where ss: "sidebar srv w = emit_all ss w" and ns: "filter is_card ss = []"
      using sidebar_events by blast
    have st: "state (emit_all ss w) = state w" by simp
    obtain es' where es': "tab2 [] rt usr srv (emit_all ss w) =
                             (Raised (NameError ''display_finding''), emit_all es' (emit_all ss w))"
      and nc': "filter is_card es' = []"
      using tab2_unbound [of "emit_all ss w" rt usr srv] assms by (auto simp only: st)
    have "app rt usr srv w = (Raised (NameError ''display_finding''), emit_all (ss @ es') w)"
      using idle by (simp add: app_def ss tab1_idle es' Let_def)
    then show ?thesis by (simp add: ns nc')
  qed
  from one two show ?thesis by blast
qed

text \<open>A stored result with one finding of severity \<open>HIGH confidence\<close>, all buckets selected.\<close>

theorem display_raises_NameError_witness:
  "result_ok (results (state (session_with result_flagged)))
   \<and> findings_of (results (state (session_with result_flagged))) \<noteq> []
   \<and> bucket_shown rt0 (severity_filter user_idle) (findings_of (results (state (session_with result_flagged))))
   \<and> secrets_configured srv_quick
   \<and> uploaded_file user_idle = None \<and> uploaded_files user_idle = []
   \<and> fst (tab2 [] rt0 user_idle srv_quick (session_with result_flagged)) = Raised (NameError ''display_finding'')
   \<and> filter is_card (emitted (session_with result_flagged)
                       (tab2 [] rt0 user_idle srv_quick (session_with result_flagged))) = []
   \<and> fst (app rt0 user_idle srv_quick (session_with result_flagged)) = Raised (NameError ''display_finding'')
   \<and> filter is_card (emitted (session_with result_flagged)
                       (app rt0 user_idle srv_quick (session_with result_flagged))) = []"
proof -
  have ne: "findings_of (results (state (session_with result_flagged))) \<noteq> []"
    by (simp add: flagged_findings)
  have idle: "secrets_configured srv_quick \<and> uploaded_file user_idle = None
              \<and> uploaded_files user_idle = []"
    by (simp add: user_idle_def srv_quick_def service_def)
  show ?thesis
    using display_raises_NameError [OF flagged_ok ne flagged_shown, of srv_quick]
      flagged_ok ne flagged_shown idle
    by blast
qed

subsection \<open>Defaults for missing fields\<close>




end
